theory Spec2Isabelle
  imports Complex_Main "HOL-Library.Char_ord" "HOL-Library.List_Lexorder"
begin

section \<open>The JavaScript runtime, as far as the parser uses it\<close>

text \<open>
  The parser service (\<^verbatim>\<open>services/parser\<close>, the last revision of it in the repository)
  is TypeScript running in a browser. This section models the pieces of the runtime it
  calls: strings, regular expressions, plain objects used as dictionaries, numbers and
  dates. Strings are lists of 8-bit code units (the Latin-1 range of UTF-16); numbers are
  exact (\<open>nat\<close>, \<open>int\<close>, \<open>real\<close>), so the rounding of IEEE doubles is idealised.
\<close>

subsection \<open>Characters and strings\<close>

definition code_unit :: "char \<Rightarrow> nat" where
  "code_unit c = of_char c"

definition is_digit :: "char \<Rightarrow> bool" where
  \<comment> \<open>\<^verbatim>\<open>\d\<close>: 0 to 9\<close>
  "is_digit c \<longleftrightarrow> 48 \<le> code_unit c \<and> code_unit c \<le> 57"

definition is_upper :: "char \<Rightarrow> bool" where
  \<comment> \<open>\<^verbatim>\<open>[A-Z]\<close>\<close>
  "is_upper c \<longleftrightarrow> 65 \<le> code_unit c \<and> code_unit c \<le> 90"

definition is_lower :: "char \<Rightarrow> bool" where
  \<comment> \<open>\<^verbatim>\<open>[a-z]\<close>\<close>
  "is_lower c \<longleftrightarrow> 97 \<le> code_unit c \<and> code_unit c \<le> 122"

definition is_word :: "char \<Rightarrow> bool" where
  \<comment> \<open>\<^verbatim>\<open>\w\<close>: digits, letters and the underscore\<close>
  "is_word c \<longleftrightarrow> is_digit c \<or> is_upper c \<or> is_lower c \<or> code_unit c = 95"

definition is_space :: "char \<Rightarrow> bool" where
  \<comment> \<open>\<^verbatim>\<open>\s\<close>, and what \<^verbatim>\<open>trim\<close> strips: tab, LF, VT, FF, CR, space, no-break space\<close>
  "is_space c \<longleftrightarrow> (9 \<le> code_unit c \<and> code_unit c \<le> 13) \<or> code_unit c = 32 \<or> code_unit c = 160"

definition has_lower_case :: "char \<Rightarrow> bool" where
  \<comment> \<open>A to Z, and the capital letters of Latin-1 (all of C0 to DE but the multiplication sign)\<close>
  "has_lower_case c \<longleftrightarrow>
     is_upper c \<or> (192 \<le> code_unit c \<and> code_unit c \<le> 222 \<and> code_unit c \<noteq> 215)"

definition to_lower_char :: "char \<Rightarrow> char" where
  \<comment> \<open>the small letter is 32 code units up: the bit of weight 32 is set\<close>
  "to_lower_char c =
     (if has_lower_case c
      then (case c of Char b0 b1 b2 b3 b4 b5 b6 b7 \<Rightarrow> Char b0 b1 b2 b3 b4 True b6 b7)
      else c)"

definition toLowerCase :: "string \<Rightarrow> string" where
  "toLowerCase s = map to_lower_char s"

definition trim :: "string \<Rightarrow> string" where
  "trim s = rev (dropWhile is_space (rev (dropWhile is_space s)))"

fun includes_str :: "string \<Rightarrow> string \<Rightarrow> bool" where
  "includes_str [] sub = (sub = [])"
| "includes_str (c # cs) sub = (take (length sub) (c # cs) = sub \<or> includes_str cs sub)"

subsection \<open>Regular expressions\<close>

text \<open>
  A regular expression is a tree; \<open>rems r s\<close> lists what is left of \<open>s\<close> after each way
  of matching \<open>r\<close> at its start, the greedy alternative first. \<^verbatim>\<open>/^r/.test(s)\<close> holds
  when some match exists, \<^verbatim>\<open>/^r$/.test(s)\<close> when some match leaves nothing.
\<close>

datatype rx = Eps | Chr "char \<Rightarrow> bool" | Seq rx rx | Alt rx rx | Opt rx | Many "char \<Rightarrow> bool"

fun rems :: "rx \<Rightarrow> string \<Rightarrow> string list" where
  "rems Eps s = [s]"
| "rems (Chr p) s = (case s of [] \<Rightarrow> [] | c # cs \<Rightarrow> if p c then [cs] else [])"
| "rems (Seq a b) s = concat (map (rems b) (rems a s))"
| "rems (Alt a b) s = rems a s @ rems b s"
| "rems (Opt a) s = rems a s @ [s]"
| "rems (Many p) s =
     (case s of [] \<Rightarrow> [[]] | c # cs \<Rightarrow> (if p c then rems (Many p) cs else []) @ [s])"

definition test_prefix :: "rx \<Rightarrow> string \<Rightarrow> bool" where
  "test_prefix r s \<longleftrightarrow> rems r s \<noteq> []"

definition test_whole :: "rx \<Rightarrow> string \<Rightarrow> bool" where
  "test_whole r s \<longleftrightarrow> [] \<in> set (rems r s)"

fun seqs :: "rx list \<Rightarrow> rx" where
  "seqs [] = Eps"
| "seqs (r # rs) = Seq r (seqs rs)"

definition ch :: "char \<Rightarrow> rx" where
  "ch x = Chr (\<lambda>c. c = x)"

definition lit_ci :: "string \<Rightarrow> rx" where
  \<comment> \<open>a literal under the \<^verbatim>\<open>i\<close> flag\<close>
  "lit_ci s = seqs (map (\<lambda>x. Chr (\<lambda>c. to_lower_char c = to_lower_char x)) s)"

definition rx_d12 :: rx where
  \<comment> \<open>\<^verbatim>\<open>\d{1,2}\<close>\<close>
  "rx_d12 = Alt (Seq (Chr is_digit) (Chr is_digit)) (Chr is_digit)"

definition rx_d2 :: rx where
  \<comment> \<open>\<^verbatim>\<open>\d{2}\<close>\<close>
  "rx_d2 = Seq (Chr is_digit) (Chr is_digit)"

definition rx_d4 :: rx where
  \<comment> \<open>\<^verbatim>\<open>\d{4}\<close>\<close>
  "rx_d4 = Seq rx_d2 rx_d2"

section \<open>The sender name validator\<close>

definition rx_clock :: rx where
  \<comment> \<open>\<^verbatim>\<open>/^\d{1,2}:\d{2}/\<close>\<close>
  "rx_clock = seqs [rx_d12, ch CHR '':'', rx_d2]"

definition rx_meridiem :: rx where
  \<comment> \<open>\<^verbatim>\<open>/^(AM|PM)$/i\<close>\<close>
  "rx_meridiem = Alt (lit_ci ''AM'') (lit_ci ''PM'')"

definition rx_short_date :: rx where
  \<comment> \<open>\<^verbatim>\<open>/^[A-Z][a-z]{2}\s\d{1,2},?\s\d{4}/\<close>\<close>
  "rx_short_date =
     seqs [Chr is_upper, Chr is_lower, Chr is_lower, Chr is_space, rx_d12, Opt (ch CHR '',''),
           Chr is_space, rx_d4]"

definition rx_slash_date :: rx where
  \<comment> \<open>\<^verbatim>\<open>/^\d{1,2}\/\d{1,2}\/\d{2,4}/\<close>\<close>
  "rx_slash_date =
     seqs [rx_d12, ch CHR ''/'', rx_d12, ch CHR ''/'', rx_d2, Opt (Chr is_digit), Opt (Chr is_digit)]"

definition commonLabels :: "string list" where
  "commonLabels =
     [''sent'', ''seen'', ''liked'', ''reacted'', ''reply'', ''replied'',
      ''message'', ''chat'', ''conversation'', ''participants'',
      ''search'', ''loading'', ''active'', ''now'', ''edited'',
      ''unsent'', ''forwarded'', ''admin'',
      ''you sent an attachment.'', ''sent an attachment.'',
      ''attachment'', ''video chat'', ''audio call'',
      ''missed voice call'', ''missed video call'']"

definition isValidSender :: "string \<Rightarrow> bool" where
  "isValidSender text =
     (if text = [] then False
      else let t = trim text in
        if length t = 0 \<or> length t > 80 then False
        else if test_prefix rx_clock t then False
        else if test_whole rx_meridiem t then False
        else if test_prefix rx_short_date t then False
        else if test_prefix rx_slash_date t then False
        else if toLowerCase t \<in> set commonLabels then False
        else if includes_str (toLowerCase t) ''sent an attachment'' then False
        else True)"

subsection \<open>Numbers as strings\<close>

definition digit_char :: "nat \<Rightarrow> char" where
  "digit_char n = ''0123456789'' ! n"

fun digits_of :: "nat \<Rightarrow> string" where
  "digits_of n = (if n < 10 then [digit_char n] else digits_of (n div 10) @ [digit_char (n mod 10)])"

declare digits_of.simps [simp del]

definition String_of :: "int \<Rightarrow> string" where
  \<comment> \<open>\<^verbatim>\<open>String(n)\<close> and \<^verbatim>\<open>`${n}`\<close> for an integer\<close>
  "String_of i = (if i < 0 then CHR ''-'' # digits_of (nat (- i)) else digits_of (nat i))"

definition padStart2 :: "string \<Rightarrow> string" where
  \<comment> \<open>\<^verbatim>\<open>s.padStart(2, '0')\<close>\<close>
  "padStart2 s = replicate (2 - length s) CHR ''0'' @ s"

definition digit_val :: "char \<Rightarrow> int" where
  "digit_val c = of_char c - 48"

definition str_to_int :: "string \<Rightarrow> int" where
  \<comment> \<open>the number a string of digits denotes\<close>
  "str_to_int s = fold (\<lambda>c n. 10 * n + digit_val c) s 0"

definition round_half_up :: "real \<Rightarrow> int" where
  \<comment> \<open>\<^verbatim>\<open>Math.round\<close>: the nearest integer, a half going up\<close>
  "round_half_up x = \<lfloor>x + 1 / 2\<rfloor>"

subsection \<open>Plain objects used as dictionaries\<close>

text \<open>
  An object literal \<^verbatim>\<open>{}\<close> is a list of its own properties in the order
  \<^verbatim>\<open>Object.keys\<close>, \<^verbatim>\<open>Object.values\<close> and \<^verbatim>\<open>Object.entries\<close> enumerate them: keys
  that are canonical array indices first, ascending, then the other keys in the order
  they were created. Reading a key that is not an own property falls through to
  \<^verbatim>\<open>Object.prototype\<close>, whose members are all truthy.
\<close>

type_synonym 'v obj = "(string \<times> 'v) list"

definition is_array_index :: "string \<Rightarrow> bool" where
  "is_array_index k \<longleftrightarrow>
     k \<noteq> [] \<and> list_all is_digit k \<and> (k = ''0'' \<or> hd k \<noteq> CHR ''0'') \<and> str_to_int k < 4294967295"

definition obj_get :: "'v obj \<Rightarrow> string \<Rightarrow> 'v option" where
  \<comment> \<open>own properties only\<close>
  "obj_get ob k = map_of ob k"

fun obj_insert_index :: "string \<Rightarrow> 'v \<Rightarrow> 'v obj \<Rightarrow> 'v obj" where
  "obj_insert_index k v [] = [(k, v)]"
| "obj_insert_index k v ((k', v') # kvs) =
     (if is_array_index k' \<and> str_to_int k' < str_to_int k
      then (k', v') # obj_insert_index k v kvs
      else (k, v) # (k', v') # kvs)"

definition modify :: "string \<Rightarrow> ('v \<Rightarrow> 'v) \<Rightarrow> 'v obj \<Rightarrow> 'v obj" where
  \<comment> \<open>change the value stored under an own key in place; nothing happens without the key\<close>
  "modify k f ob = map (\<lambda>(k', v). (k', if k' = k then f v else v)) ob"

definition obj_set :: "string \<Rightarrow> 'v \<Rightarrow> 'v obj \<Rightarrow> 'v obj" where
  \<comment> \<open>\<^verbatim>\<open>ob[k] = v\<close>\<close>
  "obj_set k v ob =
     (if obj_get ob k \<noteq> None then modify k (\<lambda>_. v) ob
      else if is_array_index k then obj_insert_index k v ob
      else ob @ [(k, v)])"

definition object_prototype_names :: "string list" where
  "object_prototype_names =
     [''constructor'', ''__defineGetter__'', ''__defineSetter__'', ''hasOwnProperty'',
      ''__lookupGetter__'', ''__lookupSetter__'', ''isPrototypeOf'', ''propertyIsEnumerable'',
      ''toString'', ''valueOf'', ''__proto__'', ''toLocaleString'']"

definition inherited :: "'v obj \<Rightarrow> string \<Rightarrow> bool" where
  \<comment> \<open>\<^verbatim>\<open>ob[k]\<close> is a member of \<^verbatim>\<open>Object.prototype\<close>\<close>
  "inherited ob k \<longleftrightarrow> obj_get ob k = None \<and> k \<in> set object_prototype_names"

definition bump :: "string \<Rightarrow> nat obj \<Rightarrow> nat obj" where
  \<comment> \<open>\<^verbatim>\<open>ob[k] = (ob[k] || 0) + 1\<close> for the keys of the hour, day and month tables, none of
      which is a member of \<^verbatim>\<open>Object.prototype\<close>\<close>
  "bump k ob = obj_set k (case obj_get ob k of None \<Rightarrow> 1 | Some n \<Rightarrow> n + 1) ob"

subsection \<open>Parsed documents\<close>

text \<open>
  The HTML parser and the selector engine are the browser's. A parsed document is
  modelled by what the queries of the three extraction strategies return on it; the
  text content of an element is a string, a query that finds nothing gives \<open>None\<close>.
\<close>

record pam_element =
  \<comment> \<open>an element matching \<^verbatim>\<open>.pam, ._3-96, ._a6-g\<close>\<close>
  header :: "string option"
  timeDiv :: "string option"
  contentDiv :: "(string \<times> bool) option"
  distinctContent :: "string option"
  hasChildNodes :: bool
  divs :: "string list"
  links :: "string list"

record div_element =
  \<comment> \<open>a \<^verbatim>\<open>div\<close>, with the text of the elements around it\<close>
  divText :: string
  hasParent :: bool
  prevSiblings :: "string list"
  parentPrev :: "string option"
  nextSibling :: "string option"
  parentNext :: "string option"

record telegram_element =
  \<comment> \<open>an element matching \<^verbatim>\<open>.message\<close>\<close>
  fromName :: "string option"
  dateNode :: "(string option \<times> string) option"
  textNode :: "string option"
  hasPhoto :: bool
  hasVideo :: bool

record document =
  pamElements :: "pam_element list"
  allDivs :: "div_element list"
  telegramMessages :: "telegram_element list"
  elementCount :: nat

subsection \<open>The environment of a call\<close>

text \<open>
  What the code takes from the browser and cannot be read off the source: the local
  time zone, the clock, the parser behind \<^verbatim>\<open>new Date(string)\<close> for strings that
  are not ISO calendar dates, the emoji table of the regular expression engine, the
  text a built-in function prints as, and the HTML parser with its selector queries
  (see above).
\<close>

record env =
  localTZA :: "int \<Rightarrow> int"
  clock :: int
  dateParse :: "string \<Rightarrow> int option"
  emojiMatches :: "string \<Rightarrow> string list"
  nativeText :: "string \<Rightarrow> string"
  parseFromString :: "string \<Rightarrow> document"

subsection \<open>Dates\<close>

text \<open>
  A valid \<^verbatim>\<open>Date\<close> is its time value, an integer count of milliseconds since the
  epoch; an invalid one (\<^verbatim>\<open>NaN\<close>) is \<open>None\<close>.
\<close>

definition msPerDay :: int where
  "msPerDay = 86400000"

definition days_from_civil :: "int \<Rightarrow> int \<Rightarrow> int \<Rightarrow> int" where
  \<comment> \<open>the day number of a calendar date, month 1 to 12\<close>
  "days_from_civil y m d =
     (let y' = (if m \<le> 2 then y - 1 else y);
          era = y' div 400;
          yoe = y' - era * 400;
          doy = (153 * (if m > 2 then m - 3 else m + 9) + 2) div 5 + d - 1;
          doe = yoe * 365 + yoe div 4 - yoe div 100 + doy
      in era * 146097 + doe - 719468)"

definition year_of_era :: "int \<Rightarrow> int" where
  \<comment> \<open>the year within a 400-year era, from the day within the era\<close>
  "year_of_era doe = (doe - doe div 1460 + doe div 36524 - doe div 146096) div 365"

definition day_of_year :: "int \<Rightarrow> int \<Rightarrow> int" where
  \<comment> \<open>the day within a year that starts on 1 March\<close>
  "day_of_year doe yoe = doe - (365 * yoe + yoe div 4 - yoe div 100)"

definition civil_of :: "int \<Rightarrow> int \<Rightarrow> int \<Rightarrow> int \<times> int \<times> int" where
  \<comment> \<open>from the year starting on 1 March, the day within it and the month counted from March\<close>
  "civil_of y doy mp =
     (if mp < 10 then (y, mp + 3, doy - (153 * mp + 2) div 5 + 1)
      else (y + 1, mp - 9, doy - (153 * mp + 2) div 5 + 1))"

definition civil_of_era :: "int \<Rightarrow> int \<Rightarrow> int \<Rightarrow> int \<times> int \<times> int" where
  \<comment> \<open>from the era, the day within it and the year within it\<close>
  "civil_of_era era doe yoe =
     civil_of (yoe + era * 400) (day_of_year doe yoe) ((5 * day_of_year doe yoe + 2) div 153)"

definition civil_from_days :: "int \<Rightarrow> int \<times> int \<times> int" where
  \<comment> \<open>year, month (1 to 12) and day of the month of a day number\<close>
  "civil_from_days z =
     civil_of_era ((z + 719468) div 146097) ((z + 719468) mod 146097)
       (year_of_era ((z + 719468) mod 146097))"

definition localTime :: "env \<Rightarrow> int \<Rightarrow> int" where
  "localTime e t = t + localTZA e t"

definition getHours :: "env \<Rightarrow> int \<Rightarrow> int" where
  "getHours e t = (localTime e t div 3600000) mod 24"

definition getFullYear :: "env \<Rightarrow> int \<Rightarrow> int" where
  "getFullYear e t = fst (civil_from_days (localTime e t div msPerDay))"

definition getMonth :: "env \<Rightarrow> int \<Rightarrow> int" where
  \<comment> \<open>January is 0\<close>
  "getMonth e t = fst (snd (civil_from_days (localTime e t div msPerDay))) - 1"

definition getDate :: "env \<Rightarrow> int \<Rightarrow> int" where
  "getDate e t = snd (snd (civil_from_days (localTime e t div msPerDay)))"

definition daysInMonth :: "int \<Rightarrow> int \<Rightarrow> int" where
  "daysInMonth y m =
     (if m = 2 then (if y mod 4 = 0 \<and> (y mod 100 \<noteq> 0 \<or> y mod 400 = 0) then 29 else 28)
      else if m \<in> {4, 6, 9, 11} then 30 else 31)"

definition iso_date_only :: "string \<Rightarrow> int option" where
  \<comment> \<open>\<^verbatim>\<open>YYYY-MM-DD\<close> naming a day of the calendar: midnight UTC of that day\<close>
  "iso_date_only s =
     (if length s = 10 \<and> list_all is_digit (take 4 s) \<and> s ! 4 = CHR ''-'' \<and>
         list_all is_digit (take 2 (drop 5 s)) \<and> s ! 7 = CHR ''-'' \<and>
         list_all is_digit (drop 8 s)
      then let y = str_to_int (take 4 s);
               m = str_to_int (take 2 (drop 5 s));
               d = str_to_int (drop 8 s)
           in if 1 \<le> m \<and> m \<le> 12 \<and> 1 \<le> d \<and> d \<le> daysInMonth y m
              then Some (days_from_civil y m d * msPerDay) else None
      else None)"

definition Date_parse :: "env \<Rightarrow> string \<Rightarrow> int option" where
  \<comment> \<open>the time value of \<^verbatim>\<open>new Date(s)\<close>: fixed by the language for an ISO calendar
      date, left to the implementation otherwise\<close>
  "Date_parse e s = (case iso_date_only s of Some t \<Rightarrow> Some t | None \<Rightarrow> dateParse e s)"

section \<open>Messages and the extraction cascade\<close>

datatype msg_type = Text | Attachment | Reel

record RawMessage =
  sender :: string
  timestamp :: int
  content :: string
  mtype :: msg_type

definition extractDate :: "env \<Rightarrow> string \<Rightarrow> int option" where
  "extractDate e dateStr = (if dateStr = [] then None else Date_parse e dateStr)"

definition rx_meta_date :: rx where
  \<comment> \<open>\<^verbatim>\<open>META_DATE_REGEX\<close>, between \<^verbatim>\<open>^\<close> and \<^verbatim>\<open>$\<close>, under the \<^verbatim>\<open>i\<close> flag\<close>
  "rx_meta_date =
     seqs [foldr Alt (map lit_ci [''Jan'', ''Feb'', ''Mar'', ''Apr'', ''May'', ''Jun'', ''Jul'',
                                  ''Aug'', ''Sep'', ''Oct'', ''Nov'']) (lit_ci ''Dec''),
           Many (\<lambda>c. is_lower c \<or> is_upper c), Chr is_space, rx_d12, ch CHR '','', Chr is_space,
           rx_d4, Opt (ch CHR '',''), Chr is_space, rx_d12, ch CHR '':'', rx_d2, Chr is_space,
           Alt (lit_ci ''AM'') (lit_ci ''PM'')]"

subsection \<open>Strategy 1: class-anchored Meta export\<close>

definition pam_content :: "pam_element \<Rightarrow> string" where
  "pam_content el =
     (let content =
            (case contentDiv el of
               Some (txt, containsHeader) \<Rightarrow>
                 if containsHeader
                 then (case distinctContent el of Some d \<Rightarrow> d | None \<Rightarrow> [])
                 else txt
             | None \<Rightarrow> [])
      in if content = [] \<and> hasChildNodes el \<and> divs el \<noteq> [] then last (divs el) else content)"

definition pam_type :: "pam_element \<Rightarrow> string \<Rightarrow> msg_type" where
  "pam_type el cont =
     (let lowerText = toLowerCase cont
      in if includes_str lowerText ''sent an attachment'' \<or> includes_str lowerText ''sent a photo''
         then (if list_ex (\<lambda>href. includes_str href ''instagram.com/reel'' \<or> includes_str href ''/reel/'')
                    (links el)
               then Reel else Attachment)
         else Text)"

definition pam_message :: "env \<Rightarrow> pam_element \<Rightarrow> RawMessage option" where
  "pam_message e el =
     (let name = map_option trim (header el);
          date = extractDate e (case timeDiv el of Some t \<Rightarrow> t | None \<Rightarrow> []);
          cont = pam_content el
      in case (name, date) of
           (Some n, Some d) \<Rightarrow>
             if n \<noteq> [] \<and> isValidSender n
             then Some \<lparr>sender = n, timestamp = d, content = cont, mtype = pam_type el cont\<rparr>
             else None
         | _ \<Rightarrow> None)"

definition strategy1 :: "env \<Rightarrow> document \<Rightarrow> RawMessage list" where
  "strategy1 e doc = List.map_filter (pam_message e) (pamElements doc)"

subsection \<open>Strategy 2: scan for date lines\<close>

definition plausible :: "string \<Rightarrow> bool" where
  \<comment> \<open>\<^verbatim>\<open>x.textContent && isValidSender(x.textContent)\<close>\<close>
  "plausible t \<longleftrightarrow> t \<noteq> [] \<and> isValidSender t"

definition div_sender :: "div_element \<Rightarrow> string" where
  "div_sender dv =
     (case find plausible (prevSiblings dv) of
        Some t \<Rightarrow> trim t
      | None \<Rightarrow>
          (case parentPrev dv of
             Some t \<Rightarrow> if plausible t then trim t else []
           | None \<Rightarrow> []))"

definition div_content :: "div_element \<Rightarrow> string" where
  "div_content dv =
     (case nextSibling dv of
        Some t \<Rightarrow> t
      | None \<Rightarrow> (case parentNext dv of Some t \<Rightarrow> t | None \<Rightarrow> []))"

definition div_message :: "env \<Rightarrow> div_element \<Rightarrow> RawMessage option" where
  "div_message e dv =
     (let t = trim (divText dv)
      in if t \<noteq> [] \<and> length t < 50 \<and> test_whole rx_meta_date t
         then (case extractDate e t of
                 None \<Rightarrow> None
               | Some d \<Rightarrow>
                   let sndr = (if hasParent dv then div_sender dv else []);
                       cont = (if hasParent dv then div_content dv else [])
                   in if sndr \<noteq> []
                      then Some \<lparr>sender = sndr, timestamp = d, content = cont,
                                 mtype = (if includes_str (toLowerCase cont) ''sent an attachment''
                                          then Attachment else Text)\<rparr>
                      else None)
         else None)"

definition strategy2 :: "env \<Rightarrow> document \<Rightarrow> RawMessage list" where
  "strategy2 e doc = List.map_filter (div_message e) (allDivs doc)"

subsection \<open>Strategy 3: Telegram export\<close>

definition telegram_dateStr :: "telegram_element \<Rightarrow> string" where
  \<comment> \<open>\<^verbatim>\<open>dateNode?.getAttribute('title') || dateNode?.textContent || ''\<close>\<close>
  "telegram_dateStr m =
     (case dateNode m of
        None \<Rightarrow> []
      | Some (title, txt) \<Rightarrow>
          (case title of Some t \<Rightarrow> if t \<noteq> [] then t else txt | None \<Rightarrow> txt))"

definition telegram_message :: "env \<Rightarrow> telegram_element \<Rightarrow> RawMessage option" where
  "telegram_message e m =
     (let name = map_option trim (fromName m);
          date = extractDate e (telegram_dateStr m);
          cont = (case textNode m of Some t \<Rightarrow> t | None \<Rightarrow> []);
          ty = (if hasVideo m then Reel else if hasPhoto m then Attachment else Text)
      in case (name, date) of
           (Some n, Some d) \<Rightarrow>
             if n \<noteq> [] \<and> isValidSender n
             then Some \<lparr>sender = n, timestamp = d, content = cont, mtype = ty\<rparr>
             else None
         | _ \<Rightarrow> None)"

definition strategy3 :: "env \<Rightarrow> document \<Rightarrow> RawMessage list" where
  "strategy3 e doc = List.map_filter (telegram_message e) (telegramMessages doc)"

subsection \<open>The cascade\<close>

definition extractMessages :: "env \<Rightarrow> document \<Rightarrow> RawMessage list \<times> string" where
  \<comment> \<open>\<^verbatim>\<open>rawMessages\<close> and \<^verbatim>\<open>detectedFormat\<close> after the three strategies\<close>
  "extractMessages e doc =
     (let (raw1, fmt1) =
            (if pamElements doc \<noteq> [] then (strategy1 e doc, ''Meta/Instagram Export (Class)'')
             else ([], ''Unknown''));
          (raw2, fmt2) =
            (if raw1 = []
             then (let r = strategy2 e doc
                   in (r, if r \<noteq> [] then ''Meta/Instagram Export (Heuristic)'' else fmt1))
             else (raw1, fmt1))
      in if raw2 = [] \<and> telegramMessages doc \<noteq> [] then (strategy3 e doc, ''Telegram Export'')
         else (raw2, fmt2))"

section \<open>The analysis pass\<close>

subsection \<open>Words\<close>

definition STOP_WORDS :: "string list" where
  "STOP_WORDS =
     [''the'', ''be'', ''to'', ''of'', ''and'', ''a'', ''in'', ''that'', ''have'', ''i'', ''it'',
      ''for'', ''not'', ''on'', ''with'', ''he'', ''as'', ''you'', ''do'', ''at'', ''this'', ''but'',
      ''his'', ''by'', ''from'', ''they'', ''we'', ''say'', ''her'', ''she'', ''or'', ''an'', ''will'',
      ''my'', ''one'', ''all'', ''would'', ''there'', ''their'', ''what'', ''so'', ''up'', ''out'',
      ''if'', ''about'', ''who'', ''get'', ''which'', ''go'', ''me'', ''when'', ''make'', ''can'',
      ''like'', ''time'', ''no'', ''just'', ''him'', ''know'', ''take'', ''people'', ''into'',
      ''year'', ''your'', ''good'', ''some'', ''could'', ''them'', ''see'', ''other'', ''than'',
      ''then'', ''now'', ''look'', ''only'', ''come'', ''its'', ''over'', ''think'', ''also'',
      ''back'', ''after'', ''use'', ''two'', ''how'', ''our'', ''work'', ''first'', ''well'', ''way'',
      ''even'', ''new'', ''want'', ''because'', ''any'', ''these'', ''give'', ''day'', ''most'',
      ''us'', ''is'', ''are'', ''was'', ''were'', ''had'', ''has'', ''sent'', ''attachment'',
      ''message'', ''chat'', ''pm'', ''am'', ''om'', ''ok'', ''okay'', ''lol'', ''yeah'', ''yes'',
      ''no'', ''attachment.'', ''to'']"

function split_ws :: "string \<Rightarrow> string \<Rightarrow> string list" where
  \<comment> \<open>\<^verbatim>\<open>split(/\s+/)\<close>; the first argument is the piece being read, reversed\<close>
  "split_ws acc [] = [rev acc]"
| "split_ws acc (c # cs) =
     (if is_space c then rev acc # split_ws [] (dropWhile is_space cs)
      else split_ws (c # acc) cs)"
  by pat_completeness auto
termination
  by (relation "measure (\<lambda>(acc, s). length s)") (auto simp: length_dropWhile_le less_Suc_eq_le)

definition words_of :: "string \<Rightarrow> string list" where
  \<comment> \<open>\<^verbatim>\<open>content.toLowerCase().replace(/[^\w\s]/gi, '').split(/\s+/)\<close>\<close>
  "words_of s = split_ws [] (filter (\<lambda>c. is_word c \<or> is_space c) (toLowerCase s))"

definition countable :: "string \<Rightarrow> bool" where
  "countable w \<longleftrightarrow> length w > 1 \<and> w \<notin> set STOP_WORDS"

datatype tally = Num nat | Str string

definition bump_tally :: "env \<Rightarrow> string \<Rightarrow> tally obj \<Rightarrow> tally obj" where
  \<comment> \<open>\<^verbatim>\<open>ob[k] = (ob[k] || 0) + 1\<close> for a word or an emoji: under a key that names a
      member of \<^verbatim>\<open>Object.prototype\<close> the sum is a string concatenation, and an
      assignment to \<^verbatim>\<open>__proto__\<close> of anything but an object does nothing\<close>
  "bump_tally e k ob =
     (case obj_get ob k of
        Some (Num n) \<Rightarrow> obj_set k (Num (n + 1)) ob
      | Some (Str t) \<Rightarrow> obj_set k (if t = [] then Num 1 else Str (t @ ''1'')) ob
      | None \<Rightarrow>
          if k \<in> set object_prototype_names
          then (if k = ''__proto__'' then ob else obj_set k (Str (nativeText e k @ ''1'')) ob)
          else obj_set k (Num 1) ob)"

subsection \<open>Accumulators\<close>

record TempSenderStat =
  name :: string
  count :: nat
  wordCounts :: "tally obj"
  reelCount :: nat
  attachmentCount :: nat
  totalLen :: nat
  replyTimes :: "real list"
  consecutiveCount :: nat
  maxConsecutive :: nat
  emojis :: "tally obj"
  initiatedCount :: nat
  lateNight :: nat
  morning :: nat
  afternoon :: nat
  evening :: nat

definition newSender :: "string \<Rightarrow> TempSenderStat" where
  "newSender nm =
     \<lparr>name = nm, count = 0, wordCounts = [], reelCount = 0, attachmentCount = 0,
      totalLen = 0, replyTimes = [], consecutiveCount = 0, maxConsecutive = 0,
      emojis = [], initiatedCount = 0,
      lateNight = 0, morning = 0, afternoon = 0, evening = 0\<rparr>"

definition getSender :: "string \<Rightarrow> TempSenderStat obj \<Rightarrow> TempSenderStat obj" where
  \<comment> \<open>the sender map after \<^verbatim>\<open>getSender(name)\<close>: \<^verbatim>\<open>!senderMap[name]\<close> holds when the
      name is neither an own key nor a member of \<^verbatim>\<open>Object.prototype\<close>\<close>
  "getSender nm sm =
     (if obj_get sm nm = None \<and> \<not> inherited sm nm then obj_set nm (newSender nm) sm else sm)"

text \<open>
  The object \<^verbatim>\<open>getSender(name)\<close> returns is the accumulator stored under the name, or,
  for an inherited name, a built-in of the runtime. Writes to the accumulator are
  \<open>modify nm f\<close> on the sender map; writes to a built-in leave the map as it is, which
  is what \<open>modify\<close> does for a key that is not there. Reading \<^verbatim>\<open>wordCounts\<close>,
  \<^verbatim>\<open>emojis\<close> or \<^verbatim>\<open>replyTimes\<close> of a built-in gives \<^verbatim>\<open>undefined\<close>, and using that
  throws a \<^verbatim>\<open>TypeError\<close>.
\<close>

record pass_state =
  senderMap :: "TempSenderStat obj"
  hourly :: "nat obj"
  timeline :: "nat obj"
  dailyActivity :: "nat obj"
  monthCounts :: "nat obj"
  previousMsg :: "RawMessage option"

definition initial_state :: pass_state where
  "initial_state =
     \<lparr>senderMap = [], hourly = [], timeline = [], dailyActivity = [], monthCounts = [],
      previousMsg = None\<rparr>"

datatype error = Error string | TypeError

definition monthKey :: "env \<Rightarrow> int \<Rightarrow> string" where
  "monthKey e t = String_of (getFullYear e t) @ ''-'' @ padStart2 (String_of (getMonth e t + 1))"

definition dayKey :: "env \<Rightarrow> int \<Rightarrow> string" where
  "dayKey e t = monthKey e t @ ''-'' @ padStart2 (String_of (getDate e t))"

definition bucket :: "int \<Rightarrow> TempSenderStat \<Rightarrow> TempSenderStat" where
  "bucket hour s =
     (if hour \<ge> 0 \<and> hour < 4 then s\<lparr>lateNight := lateNight s + 1\<rparr>
      else if hour \<ge> 4 \<and> hour < 12 then s\<lparr>morning := morning s + 1\<rparr>
      else if hour \<ge> 12 \<and> hour < 20 then s\<lparr>afternoon := afternoon s + 1\<rparr>
      else s\<lparr>evening := evening s + 1\<rparr>)"

definition basics :: "env \<Rightarrow> RawMessage \<Rightarrow> TempSenderStat \<Rightarrow> TempSenderStat" where
  \<comment> \<open>counts, length, words, emojis and the time bucket\<close>
  "basics e msg s =
     bucket (getHours e (timestamp msg))
       (s\<lparr>count := count s + 1,
          reelCount := (if mtype msg = Reel then reelCount s + 1 else reelCount s),
          attachmentCount := (if mtype msg = Attachment then attachmentCount s + 1
                              else attachmentCount s),
          totalLen := totalLen s + length (content msg),
          wordCounts := fold (bump_tally e) (filter countable (words_of (content msg)))
                          (wordCounts s),
          emojis := fold (bump_tally e) (emojiMatches e (content msg)) (emojis s)\<rparr>)"

definition timeDiffMinutes :: "RawMessage \<Rightarrow> RawMessage \<Rightarrow> real" where
  "timeDiffMinutes msg prev = real_of_int (timestamp msg - timestamp prev) / (1000 * 60)"

definition reply :: "real \<Rightarrow> TempSenderStat \<Rightarrow> TempSenderStat" where
  "reply gap s =
     s\<lparr>replyTimes := replyTimes s @ [gap],
       initiatedCount := (if gap > 360 then initiatedCount s + 1 else initiatedCount s)\<rparr>"

definition doubleText :: "TempSenderStat \<Rightarrow> TempSenderStat" where
  "doubleText s =
     (let c = consecutiveCount s + 1
      in s\<lparr>consecutiveCount := c,
           maxConsecutive := (if c > maxConsecutive s then c else maxConsecutive s)\<rparr>)"

definition step :: "env \<Rightarrow> pass_state \<Rightarrow> RawMessage \<Rightarrow> error + pass_state" where
  \<comment> \<open>the body of \<^verbatim>\<open>rawMessages.forEach\<close>\<close>
  "step e st msg =
     (let nm = sender msg;
          builtin = inherited (senderMap st) nm;
          sm = modify nm (basics e msg) (getSender nm (senderMap st));
          st' = st\<lparr>hourly := bump (String_of (getHours e (timestamp msg))) (hourly st),
                   timeline := bump (dayKey e (timestamp msg)) (timeline st),
                   dailyActivity := bump (dayKey e (timestamp msg)) (dailyActivity st),
                   monthCounts := bump (monthKey e (timestamp msg)) (monthCounts st),
                   previousMsg := Some msg\<rparr>
      in if builtin \<and> (filter countable (words_of (content msg)) \<noteq> [] \<or>
                        emojiMatches e (content msg) \<noteq> [])
         then Inl TypeError
         else case previousMsg st of
                Some prev \<Rightarrow>
                  if sender prev \<noteq> nm
                  then (if builtin then Inl TypeError
                        else Inr (st'\<lparr>senderMap :=
                               modify (sender prev) (\<lambda>p. p\<lparr>consecutiveCount := 0\<rparr>)
                                 (getSender (sender prev)
                                    (modify nm (reply (timeDiffMinutes msg prev)) sm))\<rparr>))
                  else Inr (st'\<lparr>senderMap := modify nm doubleText sm\<rparr>)
              | None \<Rightarrow>
                  Inr (st'\<lparr>senderMap :=
                         modify nm (\<lambda>s. s\<lparr>initiatedCount := initiatedCount s + 1\<rparr>) sm\<rparr>))"

fun analysisLoop :: "env \<Rightarrow> pass_state \<Rightarrow> RawMessage list \<Rightarrow> error + pass_state" where
  "analysisLoop e st [] = Inr st"
| "analysisLoop e st (m # ms) =
     (case step e st m of Inl err \<Rightarrow> Inl err | Inr st' \<Rightarrow> analysisLoop e st' ms)"

subsection \<open>After the pass: streaks, gaps, busiest day and month\<close>

definition diffDays :: "int option \<Rightarrow> int option \<Rightarrow> int option" where
  \<comment> \<open>\<^verbatim>\<open>Math.ceil(Math.abs(curr - prev) / (1000 * 60 * 60 * 24))\<close>, \<open>None\<close> for \<^verbatim>\<open>NaN\<close>\<close>
  "diffDays currDate prevDate =
     (case (currDate, prevDate) of
        (Some c, Some p) \<Rightarrow> Some \<lceil>real_of_int \<bar>c - p\<bar> / (1000 * 60 * 60 * 24)\<rceil>
      | _ \<Rightarrow> None)"

fun streakLoop :: "env \<Rightarrow> string list \<Rightarrow> int option \<Rightarrow> nat \<Rightarrow> nat \<Rightarrow> nat \<times> nat" where
  \<comment> \<open>the remaining day keys, \<^verbatim>\<open>prevDate\<close>, \<^verbatim>\<open>currentStreak\<close>, \<^verbatim>\<open>maxStreak\<close>; the result is
      the last two at the end of the loop\<close>
  "streakLoop e [] prevDate currentStreak maxStreak = (currentStreak, maxStreak)"
| "streakLoop e (k # ks) prevDate currentStreak maxStreak =
     (let currDate = Date_parse e k
      in if diffDays currDate prevDate = Some 1
         then streakLoop e ks currDate (currentStreak + 1) maxStreak
         else streakLoop e ks currDate 1 (max maxStreak currentStreak))"

definition maxDayStreak :: "env \<Rightarrow> string list \<Rightarrow> nat" where
  "maxDayStreak e sortedDays =
     (case sortedDays of
        [] \<Rightarrow> 0
      | k # ks \<Rightarrow>
          (let (currentStreak, maxStreak) = streakLoop e ks (Date_parse e k) 1 1
           in max maxStreak currentStreak))"

fun gapLoop :: "env \<Rightarrow> string list \<Rightarrow> real \<Rightarrow> real" where
  \<comment> \<open>\<^verbatim>\<open>maxGap\<close> over the pairs of neighbouring day keys; a comparison with \<^verbatim>\<open>NaN\<close> is false\<close>
  "gapLoop e (k1 # k2 # ks) maxGap =
     gapLoop e (k2 # ks)
       (case (Date_parse e k1, Date_parse e k2) of
          (Some t1, Some t2) \<Rightarrow>
            (let diff = real_of_int (t2 - t1) / (1000 * 60 * 60 * 24)
             in if diff > maxGap then diff else maxGap)
        | _ \<Rightarrow> maxGap)"
| "gapLoop e ks maxGap = maxGap"

definition longestGap :: "env \<Rightarrow> string list \<Rightarrow> int" where
  "longestGap e sortedDays = (if length sortedDays > 1 then \<lfloor>gapLoop e sortedDays 0\<rfloor> else 0)"

definition busiest :: "nat obj \<Rightarrow> string \<times> nat" where
  \<comment> \<open>the first entry with the largest count, \<^verbatim>\<open>('', 0)\<close> for an empty table\<close>
  "busiest ob = fold (\<lambda>(k, c) (bk, bc). if c > bc then (k, c) else (bk, bc)) ob ([], 0)"

definition activeDays :: "int option \<Rightarrow> int option \<Rightarrow> nat \<Rightarrow> int" where
  \<comment> \<open>\<^verbatim>\<open>activeDaysPct\<close> from \<^verbatim>\<open>firstDate\<close>, \<^verbatim>\<open>lastDate\<close> and \<^verbatim>\<open>sortedDays.length\<close>\<close>
  "activeDays firstDate lastDate n =
     (case (firstDate, lastDate) of
        (Some f, Some l) \<Rightarrow>
          (let totalDaysSpan = real_of_int (l - f) / (1000 * 3600 * 24)
           in if totalDaysSpan > 0 then round_half_up (real n / totalDaysSpan * 100) else 0)
      | _ \<Rightarrow> 0)"

subsection \<open>The result\<close>

definition COLORS :: "string list" where
  "COLORS = [''#4F46E5'', ''#EC4899'', ''#10B981'', ''#F59E0B'',
             ''#6366F1'', ''#8B5CF6'', ''#EF4444'', ''#3B82F6'']"

record SenderStat =
  ss_name :: string
  ss_count :: nat
  color :: string
  ss_wordCounts :: "tally obj"
  ss_reelCount :: nat
  ss_attachmentCount :: nat
  avgMessageLength :: int
  avgReplyTimeMinutes :: int
  fastestReplySeconds :: int
  slowestReplyMinutes :: int
  longestStreakMessages :: nat
  ss_emojis :: "tally obj"
  initiatedConversations :: nat
  lateNightMessages :: nat
  morningMessages :: nat
  afternoonMessages :: nat
  eveningMessages :: nat

definition senderStat :: "nat \<Rightarrow> TempSenderStat \<Rightarrow> SenderStat" where
  \<comment> \<open>the callback of \<^verbatim>\<open>Object.values(senderMap).map\<close>, at index \<open>idx\<close>\<close>
  "senderStat idx s =
     (let rt = sort (replyTimes s);
          avgReply = (if rt \<noteq> [] then sum_list rt / real (length rt) else 0);
          fastest = (if rt \<noteq> [] then hd rt * 60 else 0);
          slowest = (if rt \<noteq> [] then last rt else 0)
      in \<lparr>ss_name = name s,
          ss_count = count s,
          color = COLORS ! (idx mod length COLORS),
          ss_wordCounts = wordCounts s,
          ss_reelCount = reelCount s,
          ss_attachmentCount = attachmentCount s,
          avgMessageLength =
            (if count s > 0 then round_half_up (real (totalLen s) / real (count s)) else 0),
          avgReplyTimeMinutes = round_half_up avgReply,
          fastestReplySeconds = round_half_up fastest,
          slowestReplyMinutes = round_half_up slowest,
          longestStreakMessages = maxConsecutive s,
          ss_emojis = emojis s,
          initiatedConversations = initiatedCount s,
          lateNightMessages = lateNight s,
          morningMessages = morning s,
          afternoonMessages = afternoon s,
          eveningMessages = evening s\<rparr>)"

definition mapped :: "TempSenderStat obj \<Rightarrow> SenderStat list" where
  \<comment> \<open>\<^verbatim>\<open>Object.values(senderMap).map(...)\<close>, before the sort\<close>
  "mapped sm = map (\<lambda>(idx, s). senderStat idx s) (enumerate 0 (map snd sm))"

definition sendersOf :: "TempSenderStat obj \<Rightarrow> SenderStat list" where
  \<comment> \<open>\<^verbatim>\<open>.sort((a, b) => b.count - a.count)\<close>; the sort is stable\<close>
  "sendersOf sm = sort_key (\<lambda>s. - int (ss_count s)) (mapped sm)"

record metadata =
  parsedAt :: int
  rawNodeCount :: nat
  detectedFormat :: string

record ChatAnalysisResult =
  fileName :: string
  totalMessages :: nat
  senders :: "SenderStat list"
  hourlyStats :: "nat obj"
  timelineStats :: "nat obj"
  totalDays :: nat
  firstMessageDate :: "int option"
  lastMessageDate :: "int option"
  longestGapDays :: int
  longestDayStreak :: nat
  activeDaysPct :: int
  busiestDay :: "string \<times> nat"
  busiestMonth :: string
  metadata :: metadata

text \<open>
  The two dates and \<^verbatim>\<open>parsedAt\<close> are ISO strings in the source
  (\<^verbatim>\<open>toISOString()\<close>); the record holds the instants they print.
\<close>

definition sortedDaysOf :: "pass_state \<Rightarrow> string list" where
  \<comment> \<open>\<^verbatim>\<open>Object.keys(dailyActivity).sort()\<close>: by code units\<close>
  "sortedDaysOf st = sort (map fst (dailyActivity st))"

definition assemble ::
  "env \<Rightarrow> string \<Rightarrow> document \<Rightarrow> string \<Rightarrow> RawMessage list \<Rightarrow> pass_state \<Rightarrow> ChatAnalysisResult"
  where
  "assemble e fname doc fmt rawMessages st =
     (let sortedDays = sortedDaysOf st;
          firstDate = (if rawMessages \<noteq> [] then Some (timestamp (hd rawMessages)) else None);
          lastDate = (if rawMessages \<noteq> [] then Some (timestamp (last rawMessages)) else None)
      in \<lparr>fileName = fname,
          totalMessages = length rawMessages,
          senders = sendersOf (senderMap st),
          hourlyStats = hourly st,
          timelineStats = timeline st,
          totalDays = length sortedDays,
          firstMessageDate = firstDate,
          lastMessageDate = lastDate,
          longestGapDays = longestGap e sortedDays,
          longestDayStreak = maxDayStreak e sortedDays,
          activeDaysPct = activeDays firstDate lastDate (length sortedDays),
          busiestDay = busiest (dailyActivity st),
          busiestMonth = fst (busiest (monthCounts st)),
          metadata = \<lparr>parsedAt = clock e, rawNodeCount = elementCount doc,
                      detectedFormat = fmt\<rparr>\<rparr>)"

definition analyse ::
  "env \<Rightarrow> string \<Rightarrow> document \<Rightarrow> string \<Rightarrow> RawMessage list \<Rightarrow> error + ChatAnalysisResult"
  where
  \<comment> \<open>the sort by time (stable), the pass and the assembly\<close>
  "analyse e fname doc fmt raw =
     (let rawMessages = sort_key timestamp raw
      in case analysisLoop e initial_state rawMessages of
           Inl err \<Rightarrow> Inl err
         | Inr st \<Rightarrow> Inr (assemble e fname doc fmt rawMessages st))"

section \<open>The parse of one file\<close>

definition parseChatFile :: "env \<Rightarrow> string \<Rightarrow> string \<Rightarrow> error + ChatAnalysisResult" where
  \<comment> \<open>the \<^verbatim>\<open>onload\<close> handler, on the file's name and the text read from it; \<open>Inl\<close> is a
      rejected promise\<close>
  "parseChatFile e fname text =
     (if text = [] then Inl (Error ''Empty file content'')
      else let doc = parseFromString e text;
               (rawMessages, fmt) = extractMessages e doc
           in if rawMessages = [] then Inl (Error ''No messages found or format unrecognized.'')
              else analyse e fname doc fmt rawMessages)"

section \<open>Notions used in the statements\<close>

subsection \<open>Shapes of strings\<close>







subsection \<open>Accumulators\<close>

definition partitioned :: "TempSenderStat \<Rightarrow> bool" where
  \<comment> \<open>the four time-of-day counters add up to the message count\<close>
  "partitioned s \<longleftrightarrow> lateNight s + morning s + afternoon s + evening s = count s"

definition based :: "env \<Rightarrow> pass_state \<Rightarrow> RawMessage \<Rightarrow> TempSenderStat obj" where
  \<comment> \<open>the sender map once the counts, words, emojis and bucket of a message are in\<close>
  "based e st msg = modify (sender msg) (basics e msg) (getSender (sender msg) (senderMap st))"

subsection \<open>Results and passes\<close>

definition forget_time :: "ChatAnalysisResult \<Rightarrow> ChatAnalysisResult" where
  \<comment> \<open>the result with the time of the parse blanked\<close>
  "forget_time r = r\<lparr>metadata := (metadata r)\<lparr>parsedAt := 0\<rparr>\<rparr>"



fun firstSeen :: "string list \<Rightarrow> string list" where
  \<comment> \<open>the distinct names of a list, in the order of their first occurrence\<close>
  "firstSeen [] = []"
| "firstSeen (x # xs) = x # filter (\<lambda>y. y \<noteq> x) (firstSeen xs)"

definition senderMapOf :: "env \<Rightarrow> RawMessage list \<Rightarrow> TempSenderStat obj" where
  \<comment> \<open>the sender map at the end of the pass over the extracted messages\<close>
  "senderMapOf e raw =
     (case analysisLoop e initial_state (sort_key timestamp raw) of
        Inr st \<Rightarrow> senderMap st
      | Inl err \<Rightarrow> [])"

definition ordinary :: "string \<Rightarrow> bool" where
  \<comment> \<open>a name that is neither an array index nor a member of \<^verbatim>\<open>Object.prototype\<close>\<close>
  "ordinary nm \<longleftrightarrow> \<not> is_array_index nm \<and> nm \<notin> set object_prototype_names"

section \<open>Example documents\<close>

text \<open>
  Three Telegram-style pages, written without \<^verbatim>\<open>div\<close> elements so that only the third
  strategy sees them, and a page with no message. Every message has an empty text.
  The environment is a browser in UTC whose date parser knows the six time stamps used.
\<close>

definition tg :: "string \<Rightarrow> string \<Rightarrow> telegram_element" where
  "tg nm title = \<lparr>fromName = Some nm, dateNode = Some (Some title, []), textNode = Some [],
                  hasPhoto = False, hasVideo = False\<rparr>"

definition page :: "telegram_element list \<Rightarrow> document" where
  "page ms = \<lparr>pamElements = [], allDivs = [], telegramMessages = ms, elementCount = 3 + 4 * length ms\<rparr>"

definition para :: "string \<Rightarrow> string \<Rightarrow> string" where
  "para nm title = ''<p class=message><b class=from_name>'' @ nm @ ''</b><i class=date title='' @ title @
                   ''></i><q class=text></q></p>''"

definition example_dates :: "(string \<times> int) list" where
  "example_dates =
     [(''2024-01-01T09:00Z'', 1704099600000), (''2024-01-01T09:05Z'', 1704099900000),
      (''2024-01-01T09:10Z'', 1704100200000), (''2024-01-01T09:20Z'', 1704100800000),
      (''2024-01-01T15:40Z'', 1704123600000), (''2024-01-02T09:00Z'', 1704186000000)]"

definition text_A :: string where
  "text_A = para ''Ann'' ''2024-01-01T09:00Z'' @ para ''Ann'' ''2024-01-01T09:05Z'' @
            para ''Ann'' ''2024-01-01T09:10Z'' @ para ''Ben'' ''2024-01-01T09:20Z''"

definition doc_A :: document where
  "doc_A = page [tg ''Ann'' ''2024-01-01T09:00Z'', tg ''Ann'' ''2024-01-01T09:05Z'',
                 tg ''Ann'' ''2024-01-01T09:10Z'', tg ''Ben'' ''2024-01-01T09:20Z'']"

definition text_B :: string where
  "text_B = para ''Ann'' ''2024-01-01T09:00Z'' @ para ''Ben'' ''2024-01-01T15:40Z'' @
            para ''Ben'' ''2024-01-02T09:00Z''"

definition doc_B :: document where
  "doc_B = page [tg ''Ann'' ''2024-01-01T09:00Z'', tg ''Ben'' ''2024-01-01T15:40Z'',
                 tg ''Ben'' ''2024-01-02T09:00Z'']"

definition text_C :: string where
  "text_C = para ''constructor'' ''2024-01-01T09:00Z''"

definition doc_C :: document where
  "doc_C = page [tg ''constructor'' ''2024-01-01T09:00Z'']"

definition text_D :: string where
  "text_D = ''<p>hello</p>''"

definition example_env :: "int \<Rightarrow> env" where
  "example_env c =
     \<lparr>localTZA = (\<lambda>_. 0), clock = c, dateParse = map_of example_dates,
      emojiMatches = (\<lambda>_. []), nativeText = (\<lambda>_. ''function () { [native code] }''),
      parseFromString = (\<lambda>s. case map_of [(text_A, doc_A), (text_B, doc_B), (text_C, doc_C)] s of
                               Some d \<Rightarrow> d | None \<Rightarrow> page [])\<rparr>"

definition plain_msg :: "string \<Rightarrow> int \<Rightarrow> RawMessage" where
  "plain_msg nm t = \<lparr>sender = nm, timestamp = t, content = [], mtype = Text\<rparr>"

definition acc :: "string \<Rightarrow> nat \<Rightarrow> real list \<Rightarrow> nat \<Rightarrow> nat \<Rightarrow> nat \<Rightarrow> nat \<Rightarrow> nat \<Rightarrow> TempSenderStat" where
  "acc nm n gaps cons mx ini mo af =
     \<lparr>name = nm, count = n, wordCounts = [], reelCount = 0, attachmentCount = 0, totalLen = 0,
      replyTimes = gaps, consecutiveCount = cons, maxConsecutive = mx, emojis = [],
      initiatedCount = ini, lateNight = 0, morning = mo, afternoon = af, evening = 0\<rparr>"

definition state :: "TempSenderStat obj \<Rightarrow> nat obj \<Rightarrow> nat obj \<Rightarrow> nat obj \<Rightarrow> RawMessage \<Rightarrow> pass_state" where
  "state sm h days months prev =
     \<lparr>senderMap = sm, hourly = h, timeline = days, dailyActivity = days, monthCounts = months,
      previousMsg = Some prev\<rparr>"

definition day1 :: string where "day1 = ''2024-01-01''"
definition day2 :: string where "day2 = ''2024-01-02''"
definition month1 :: string where "month1 = ''2024-01''"

definition state_A :: pass_state where
  "state_A = state [(''Ann'', acc ''Ann'' 3 [] 0 2 1 3 0), (''Ben'', acc ''Ben'' 1 [10] 0 0 0 1 0)]
          [(''9'', 4)] [(day1, 4)] [(month1, 4)] (plain_msg ''Ben'' 1704100800000)"

definition state_B :: pass_state where
  "state_B = state [(''Ann'', acc ''Ann'' 1 [] 0 0 1 1 0), (''Ben'', acc ''Ben'' 2 [400] 1 1 1 1 1)]
          [(''9'', 2), (''15'', 1)] [(day1, 2), (day2, 1)] [(month1, 3)]
          (plain_msg ''Ben'' 1704186000000)"

definition state_C :: pass_state where
  "state_C = state [] [(''9'', 1)] [(day1, 1)] [(month1, 1)] (plain_msg ''constructor'' 1704099600000)"

definition msgs_A :: "RawMessage list" where
  "msgs_A = [plain_msg ''Ann'' 1704099600000, plain_msg ''Ann'' 1704099900000,
             plain_msg ''Ann'' 1704100200000, plain_msg ''Ben'' 1704100800000]"

definition msgs_B :: "RawMessage list" where
  "msgs_B = [plain_msg ''Ann'' 1704099600000, plain_msg ''Ben'' 1704123600000,
             plain_msg ''Ben'' 1704186000000]"

definition msgs_C :: "RawMessage list" where
  "msgs_C = [plain_msg ''constructor'' 1704099600000]"

definition result_A :: "int \<Rightarrow> string \<Rightarrow> ChatAnalysisResult" where
  "result_A c fname = assemble (example_env c) fname doc_A ''Telegram Export'' msgs_A state_A"

definition result_B :: "int \<Rightarrow> string \<Rightarrow> ChatAnalysisResult" where
  "result_B c fname = assemble (example_env c) fname doc_B ''Telegram Export'' msgs_B state_B"

definition result_C :: "int \<Rightarrow> string \<Rightarrow> ChatAnalysisResult" where
  "result_C c fname = assemble (example_env c) fname doc_C ''Telegram Export'' msgs_C state_C"

section \<open>Evaluation\<close>

lemmas char_classes = code_unit_def is_digit_def is_upper_def is_lower_def is_space_def is_word_def
lemmas lower_defs = toLowerCase_def to_lower_char_def has_lower_case_def
lemmas rx_defs = test_prefix_def test_whole_def rx_clock_def rx_meridiem_def rx_short_date_def
  rx_slash_date_def rx_d12_def rx_d2_def rx_d4_def ch_def lit_ci_def
lemmas validator_defs = isValidSender_def trim_def char_classes rx_defs lower_defs commonLabels_def

section \<open>The sender name validator, characterised\<close>





















section \<open>Objects\<close>

lemma map_fst_modify: "map fst (modify k f ob) = map fst ob"
  by (induction ob) (auto simp: modify_def)


lemma modify_absent: "obj_get ob k = None \<Longrightarrow> modify k f ob = ob"
  by (induction ob) (auto simp: modify_def obj_get_def split: if_splits)

lemma set_obj_insert_index: "set (obj_insert_index k v ob) = insert (k, v) (set ob)"
  by (induction ob) (auto split: if_splits)



lemma all_modify:
  "\<forall>x \<in> set ob. P (snd x) \<Longrightarrow> (\<And>s. P s \<Longrightarrow> P (f s)) \<Longrightarrow> \<forall>x \<in> set (modify k f ob). P (snd x)"
  by (induction ob) (auto simp: modify_def)

lemma all_obj_set:
  "\<forall>x \<in> set ob. P (snd x) \<Longrightarrow> P v \<Longrightarrow> \<forall>x \<in> set (obj_set k v ob). P (snd x)"
  by (auto simp: obj_set_def set_obj_insert_index modify_def)



section \<open>The pass, step by step\<close>

lemma analysisLoop_append:
  "analysisLoop e st (ms @ [m]) =
     (case analysisLoop e st ms of Inl err \<Rightarrow> Inl err | Inr st' \<Rightarrow> step e st' m)"
  by (induction ms arbitrary: st) (auto split: sum.splits)

lemma partitioned_new: "partitioned (newSender nm)"
  by (simp add: partitioned_def newSender_def)

lemma partitioned_basics: "partitioned s \<Longrightarrow> partitioned (basics e msg s)"
  by (simp add: partitioned_def basics_def bucket_def)

lemma partitioned_reply: "partitioned s \<Longrightarrow> partitioned (reply g s)"
  by (simp add: partitioned_def reply_def)

lemma partitioned_doubleText: "partitioned s \<Longrightarrow> partitioned (doubleText s)"
  by (simp add: partitioned_def doubleText_def Let_def)

lemma all_getSender:
  "\<forall>x \<in> set sm. P (snd x) \<Longrightarrow> P (newSender nm) \<Longrightarrow> \<forall>x \<in> set (getSender nm sm). P (snd x)"
  by (simp add: getSender_def all_obj_set)

lemma step_tables:
  assumes "step e st msg = Inr st'"
  shows "hourly st' = bump (String_of (getHours e (timestamp msg))) (hourly st)"
    and "timeline st' = bump (dayKey e (timestamp msg)) (timeline st)"
    and "dailyActivity st' = bump (dayKey e (timestamp msg)) (dailyActivity st)"
    and "monthCounts st' = bump (monthKey e (timestamp msg)) (monthCounts st)"
    and "previousMsg st' = Some msg"
  using assms unfolding step_def Let_def
  by (auto split: if_splits option.splits)

lemma step_cases [consumes 1, case_names first reply double]:
  assumes "step e st msg = Inr st'"
  obtains
    "previousMsg st = None"
    "senderMap st' =
       modify (sender msg) (\<lambda>s. s\<lparr>initiatedCount := initiatedCount s + 1\<rparr>) (based e st msg)"
  | prev where "previousMsg st = Some prev" "sender prev \<noteq> sender msg"
      "\<not> inherited (senderMap st) (sender msg)"
      "senderMap st' =
         modify (sender prev) (\<lambda>p. p\<lparr>consecutiveCount := 0\<rparr>)
           (getSender (sender prev)
              (modify (sender msg) (reply (timeDiffMinutes msg prev)) (based e st msg)))"
  | prev where "previousMsg st = Some prev" "sender prev = sender msg"
      "senderMap st' = modify (sender msg) doubleText (based e st msg)"
  using assms unfolding step_def Let_def based_def
  by (auto split: if_splits option.splits)

lemma step_partitioned:
  assumes "step e st msg = Inr st'" and inv: "\<forall>x \<in> set (senderMap st). partitioned (snd x)"
  shows "\<forall>x \<in> set (senderMap st'). partitioned (snd x)"
proof -
  have sm: "\<forall>x \<in> set (based e st msg). partitioned (snd x)"
    unfolding based_def
    by (intro all_modify all_getSender inv partitioned_new partitioned_basics)
  from assms(1) show ?thesis
  proof (cases rule: step_cases)
    case first
    then show ?thesis
      using all_modify [OF sm, of "\<lambda>s. s\<lparr>initiatedCount := initiatedCount s + 1\<rparr>"]
      by (simp add: partitioned_def)
  next
    case (reply prev)
    have "\<forall>x \<in> set (getSender (sender prev)
              (modify (sender msg) (reply (timeDiffMinutes msg prev)) (based e st msg))).
            partitioned (snd x)"
      by (intro all_getSender all_modify sm partitioned_reply partitioned_new)
    from all_modify [OF this, of "\<lambda>p. p\<lparr>consecutiveCount := 0\<rparr>"] reply(4)
    show ?thesis by (simp add: partitioned_def)
  next
    case (double prev)
    then show ?thesis
      using all_modify [OF sm partitioned_doubleText] by simp
  qed
qed

lemma loop_partitioned:
  "analysisLoop e st ms = Inr st' \<Longrightarrow> \<forall>x \<in> set (senderMap st). partitioned (snd x) \<Longrightarrow>
   \<forall>x \<in> set (senderMap st'). partitioned (snd x)"
proof (induction ms arbitrary: st)
  case Nil
  then show ?case by simp
next
  case (Cons m ms)
  then show ?case
    by (auto split: sum.splits dest: step_partitioned)
qed

section \<open>The result\<close>

lemma analyse_Inr:
  "analyse e fname doc fmt raw = Inr r \<longleftrightarrow>
     (\<exists>st. analysisLoop e initial_state (sort_key timestamp raw) = Inr st \<and>
           r = assemble e fname doc fmt (sort_key timestamp raw) st)"
  by (auto simp: analyse_def Let_def split: sum.splits)

lemma parse_Inr:
  "parseChatFile e fname text = Inr r \<longleftrightarrow>
     text \<noteq> [] \<and> fst (extractMessages e (parseFromString e text)) \<noteq> [] \<and>
     analyse e fname (parseFromString e text) (snd (extractMessages e (parseFromString e text)))
       (fst (extractMessages e (parseFromString e text))) = Inr r"
  by (auto simp: parseChatFile_def Let_def split: prod.splits)

lemma set_sendersOf: "set (sendersOf sm) = set (mapped sm)"
  by (simp add: sendersOf_def)

lemma mapped_nth:
  "i < length sm \<Longrightarrow> mapped sm ! i = senderStat i (snd (sm ! i))"
  by (simp add: mapped_def nth_enumerate_eq)

lemma in_mapped:
  "s \<in> set (mapped sm) \<Longrightarrow> \<exists>i < length sm. s = senderStat i (snd (sm ! i))"
  by (metis in_set_conv_nth length_map length_enumerate mapped_def mapped_nth)

text \<open>
  C10. For every sender of a result, the late-night, morning, afternoon and evening
  counters add up to the sender's message count.
\<close>

theorem buckets_partition_count:
  assumes "parseChatFile e fname text = Inr r" and "s \<in> set (senders r)"
  shows "lateNightMessages s + morningMessages s + afternoonMessages s + eveningMessages s = ss_count s"
proof -
  from assms(1) obtain st raw where
    loop: "analysisLoop e initial_state raw = Inr st" and r: "senders r = sendersOf (senderMap st)"
    by (auto simp: parse_Inr analyse_Inr assemble_def Let_def)
  have "\<forall>x \<in> set (senderMap st). partitioned (snd x)"
    by (rule loop_partitioned [OF loop]) (simp add: initial_state_def)
  moreover from assms(2) r obtain i where "i < length (senderMap st)"
    and "s = senderStat i (snd (senderMap st ! i))"
    using in_mapped by (auto simp: set_sendersOf)
  ultimately show ?thesis
    by (auto simp: senderStat_def Let_def partitioned_def)
qed


section \<open>The clock\<close>

lemma clock_dates [simp]:
  "getHours (e\<lparr>clock := c\<rparr>) = getHours e"
  "getFullYear (e\<lparr>clock := c\<rparr>) = getFullYear e"
  "getMonth (e\<lparr>clock := c\<rparr>) = getMonth e"
  "getDate (e\<lparr>clock := c\<rparr>) = getDate e"
  "Date_parse (e\<lparr>clock := c\<rparr>) = Date_parse e"
  by (auto simp: fun_eq_iff getHours_def getFullYear_def getMonth_def getDate_def localTime_def
        Date_parse_def split: option.splits)

lemma clock_keys [simp]:
  "monthKey (e\<lparr>clock := c\<rparr>) = monthKey e" "dayKey (e\<lparr>clock := c\<rparr>) = dayKey e"
  "extractDate (e\<lparr>clock := c\<rparr>) = extractDate e"
  by (auto simp: fun_eq_iff monthKey_def dayKey_def extractDate_def)

lemma clock_extract [simp]: "extractMessages (e\<lparr>clock := c\<rparr>) doc = extractMessages e doc"
proof -
  have m: "pam_message (e\<lparr>clock := c\<rparr>) = pam_message e"
    "div_message (e\<lparr>clock := c\<rparr>) = div_message e"
    "telegram_message (e\<lparr>clock := c\<rparr>) = telegram_message e"
    by (rule ext, simp add: pam_message_def div_message_def telegram_message_def Let_def)+
  show ?thesis
    unfolding extractMessages_def strategy1_def strategy2_def strategy3_def m ..
qed

lemma clock_step [simp]: "step (e\<lparr>clock := c\<rparr>) st msg = step e st msg"
proof -
  have "bump_tally (e\<lparr>clock := c\<rparr>) = bump_tally e"
    by (rule ext)+ (simp add: bump_tally_def split: option.splits)
  then have "basics (e\<lparr>clock := c\<rparr>) = basics e"
    by (intro ext) (simp add: basics_def)
  then show ?thesis
    unfolding step_def by simp
qed

lemma clock_loop [simp]: "analysisLoop (e\<lparr>clock := c\<rparr>) st ms = analysisLoop e st ms"
  by (induction ms arbitrary: st) (auto split: sum.splits)

lemma clock_streakLoop [simp]: "streakLoop (e\<lparr>clock := c\<rparr>) ks p cur mx = streakLoop e ks p cur mx"
  by (induction ks arbitrary: p cur mx) (auto simp: Let_def)

lemma clock_gapLoop [simp]: "gapLoop (e\<lparr>clock := c\<rparr>) ks g = gapLoop e ks g"
  by (induction e ks g rule: gapLoop.induct) (auto split: option.splits)

lemma clock_assemble:
  "forget_time (assemble (e\<lparr>clock := c\<rparr>) fname doc fmt raw st) = forget_time (assemble e fname doc fmt raw st)"
  by (simp add: forget_time_def assemble_def Let_def maxDayStreak_def longestGap_def
        split: list.splits)

text \<open>
  C9, as the code has it. Two parses of the same file name and text in the same
  environment, at any two readings of the clock, give the same outcome once
  \<^verbatim>\<open>metadata.parsedAt\<close> is blanked: the same error, or results equal in every other
  field.
\<close>

theorem parse_depends_on_clock_only_in_parsedAt:
  "map_sum id forget_time (parseChatFile (e\<lparr>clock := t1\<rparr>) fname text) =
   map_sum id forget_time (parseChatFile (e\<lparr>clock := t2\<rparr>) fname text)"
proof -
  have "map_sum id forget_time (parseChatFile (e\<lparr>clock := c\<rparr>) fname text) =
        map_sum id forget_time (parseChatFile e fname text)" for c
    by (simp add: parseChatFile_def analyse_def Let_def clock_assemble split: prod.splits sum.splits)
  then show ?thesis by simp
qed

lemma parsedAt_clock: "parseChatFile e fname text = Inr r \<Longrightarrow> parsedAt (metadata r) = clock e"
  by (auto simp: parseChatFile_def analyse_def assemble_def Let_def split: prod.splits sum.splits if_splits)

section \<open>Failures\<close>

lemma extract_nothing:
  "strategy1 e doc = [] \<Longrightarrow> strategy2 e doc = [] \<Longrightarrow> strategy3 e doc = [] \<Longrightarrow>
   fst (extractMessages e doc) = []"
  by (simp add: extractMessages_def Let_def)

lemma totalMessages_parse:
  "parseChatFile e fname text = Inr r \<Longrightarrow>
   totalMessages r = length (fst (extractMessages e (parseFromString e text))) \<and> 1 \<le> totalMessages r"
  by (auto simp: parseChatFile_def analyse_def assemble_def Let_def Suc_le_eq
           split: prod.splits sum.splits if_splits)

text \<open>
  C5. The parse of an empty text fails with the empty-content error; the parse of a
  text on which the three strategies find no message fails with the
  format-not-recognised error; and a parse that succeeds reports as many messages as
  the cascade extracted, at least one.
\<close>

theorem parse_fails_or_has_messages:
  "parseChatFile e fname [] = Inl (Error ''Empty file content'') \<and>
   (text \<noteq> [] \<and> strategy1 e (parseFromString e text) = [] \<and>
    strategy2 e (parseFromString e text) = [] \<and> strategy3 e (parseFromString e text) = [] \<longrightarrow>
    parseChatFile e fname text = Inl (Error ''No messages found or format unrecognized.'')) \<and>
   (\<forall>r. parseChatFile e fname text = Inr r \<longrightarrow>
      text \<noteq> [] \<and>
      totalMessages r = length (fst (extractMessages e (parseFromString e text))) \<and>
      1 \<le> totalMessages r)"
proof (intro conjI impI allI)
  show "parseChatFile e fname [] = Inl (Error ''Empty file content'')"
    by (simp add: parseChatFile_def)
next
  assume "text \<noteq> [] \<and> strategy1 e (parseFromString e text) = [] \<and>
    strategy2 e (parseFromString e text) = [] \<and> strategy3 e (parseFromString e text) = []"
  then show "parseChatFile e fname text = Inl (Error ''No messages found or format unrecognized.'')"
    using extract_nothing [of e "parseFromString e text"]
    by (auto simp: parseChatFile_def Let_def split: prod.splits)
next
  fix r assume "parseChatFile e fname text = Inr r"
  then show "text \<noteq> []" by (auto simp: parseChatFile_def split: if_splits)
next
  fix r assume "parseChatFile e fname text = Inr r"
  then show "totalMessages r = length (fst (extractMessages e (parseFromString e text)))"
    using totalMessages_parse by blast
next
  fix r assume "parseChatFile e fname text = Inr r"
  then show "1 \<le> totalMessages r" using totalMessages_parse by blast
qed


section \<open>Day streaks\<close>






lemma sort_key_eq_Nil [simp]: "sort_key f xs = [] \<longleftrightarrow> xs = []"
  by (metis length_sort length_0_conv)



section \<open>Replies\<close>




section \<open>Senders of the result\<close>

lemma set_firstSeen [simp]: "set (firstSeen xs) = set xs"
  by (induction xs) auto

lemma firstSeen_snoc:
  "firstSeen (xs @ [x]) = (if x \<in> set xs then firstSeen xs else firstSeen xs @ [x])"
  by (induction xs) auto

lemma named_modify:
  "\<forall>x \<in> set ob. name (snd x) = fst x \<Longrightarrow> (\<And>s. name (f s) = name s) \<Longrightarrow>
   \<forall>x \<in> set (modify k f ob). name (snd x) = fst x"
  by (induction ob) (auto simp: modify_def)

lemma named_getSender:
  "\<forall>x \<in> set sm. name (snd x) = fst x \<Longrightarrow> \<forall>x \<in> set (getSender nm sm). name (snd x) = fst x"
  by (auto simp: getSender_def obj_set_def set_obj_insert_index modify_def newSender_def)

lemma keys_getSender:
  "ordinary nm \<Longrightarrow>
   map fst (getSender nm sm) = (if nm \<in> set (map fst sm) then map fst sm else map fst sm @ [nm])"
  by (auto simp: getSender_def ordinary_def inherited_def obj_set_def obj_get_def map_of_eq_None_iff)

lemma name_basics [simp]: "name (basics e msg s) = name s"
  by (simp add: basics_def bucket_def)

lemma step_keys:
  assumes "step e st msg = Inr st'" and "ordinary (sender msg)"
    and "\<forall>p. previousMsg st = Some p \<longrightarrow> sender p \<in> set (map fst (senderMap st))"
    and "\<forall>x \<in> set (senderMap st). name (snd x) = fst x"
  shows "map fst (senderMap st') =
           (if sender msg \<in> set (map fst (senderMap st)) then map fst (senderMap st)
            else map fst (senderMap st) @ [sender msg])"
    and "\<forall>x \<in> set (senderMap st'). name (snd x) = fst x"
proof -
  have k: "map fst (based e st msg) =
           (if sender msg \<in> set (map fst (senderMap st)) then map fst (senderMap st)
            else map fst (senderMap st) @ [sender msg])"
    by (simp add: based_def map_fst_modify keys_getSender assms(2))
  have n: "\<forall>x \<in> set (based e st msg). name (snd x) = fst x"
    unfolding based_def by (intro named_modify named_getSender assms(4)) simp
  from assms(1) show "map fst (senderMap st') =
           (if sender msg \<in> set (map fst (senderMap st)) then map fst (senderMap st)
            else map fst (senderMap st) @ [sender msg])"
  proof (cases rule: step_cases)
    case first
    then show ?thesis by (simp add: map_fst_modify k)
  next
    case (reply prev)
    with assms(3) have "sender prev \<in> set (map fst (senderMap st))" by simp
    then have "obj_get (modify (sender msg) (reply (timeDiffMinutes msg prev)) (based e st msg))
                 (sender prev) \<noteq> None"
      using k by (auto simp: obj_get_def map_of_eq_None_iff map_fst_modify image_iff
                       simp flip: set_map split: if_splits)
    then have "getSender (sender prev)
                 (modify (sender msg) (reply (timeDiffMinutes msg prev)) (based e st msg)) =
               modify (sender msg) (reply (timeDiffMinutes msg prev)) (based e st msg)"
      by (auto simp: getSender_def)
    with reply(4) show ?thesis by (simp add: map_fst_modify k)
  next
    case (double prev)
    then show ?thesis by (simp add: map_fst_modify k)
  qed
  from assms(1) show "\<forall>x \<in> set (senderMap st'). name (snd x) = fst x"
  proof (cases rule: step_cases)
    case first
    show ?thesis unfolding first(2) by (rule named_modify [OF n]) simp
  next
    case (reply prev)
    show ?thesis unfolding reply(4)
      by (intro named_modify named_getSender n) (simp_all add: reply_def)
  next
    case (double prev)
    show ?thesis unfolding double(3)
      by (rule named_modify [OF n]) (simp add: doubleText_def Let_def)
  qed
qed

lemma loop_keys:
  assumes "analysisLoop e initial_state ms = Inr st" and "\<forall>m \<in> set ms. ordinary (sender m)"
  shows "map fst (senderMap st) = firstSeen (map sender ms) \<and>
         (\<forall>x \<in> set (senderMap st). name (snd x) = fst x) \<and>
         previousMsg st = (if ms = [] then None else Some (last ms))"
  using assms
proof (induction ms arbitrary: st rule: rev_induct)
  case Nil
  then show ?case by (auto simp: initial_state_def)
next
  case (snoc m ms)
  from snoc.prems(1) obtain st0 where l: "analysisLoop e initial_state ms = Inr st0"
    and s: "step e st0 m = Inr st"
    by (auto simp: analysisLoop_append split: sum.splits)
  from snoc.IH [OF l] snoc.prems(2)
  have ih: "map fst (senderMap st0) = firstSeen (map sender ms)"
    "\<forall>x \<in> set (senderMap st0). name (snd x) = fst x"
    "previousMsg st0 = (if ms = [] then None else Some (last ms))"
    by auto
  have prev: "\<forall>p. previousMsg st0 = Some p \<longrightarrow> sender p \<in> set (map fst (senderMap st0))"
    unfolding ih(1) ih(3) by (auto split: if_splits)
  from step_keys [OF s _ prev ih(2)] snoc.prems(2) step_tables(5) [OF s]
  show ?case
    by (simp add: ih(1) firstSeen_snoc)
qed

lemma sorted_sendersOf: "sorted_wrt (\<lambda>a b. ss_count b \<le> ss_count a) (sendersOf sm)"
proof -
  have "sorted (map (\<lambda>s. - int (ss_count s)) (sendersOf sm))"
    unfolding sendersOf_def by (rule sorted_sort_key)
  then show ?thesis
    by (simp add: sorted_map)
qed

lemma stable_sendersOf:
  "filter (\<lambda>s. ss_count s = c) (sendersOf sm) = filter (\<lambda>s. ss_count s = c) (mapped sm)"
  using sort_key_stable [of "\<lambda>s. - int (ss_count s)" "- int c" "mapped sm"]
  by (simp add: sendersOf_def)

lemma length_mapped [simp]: "length (mapped sm) = length sm"
  by (simp add: mapped_def)

lemma colors_mapped:
  "map color (mapped sm) = map (\<lambda>i. COLORS ! (i mod length COLORS)) [0 ..< length sm]"
  by (rule nth_equalityI) (simp_all add: mapped_nth senderStat_def Let_def)

lemma names_mapped: "map ss_name (mapped sm) = map (\<lambda>x. name (snd x)) sm"
  by (rule nth_equalityI) (simp_all add: mapped_nth senderStat_def Let_def)

text \<open>
  C8, as the code has it. The senders of a result are in descending order of message
  count, senders with equal counts in the order in which the sender map enumerates
  them; the colour of a sender is the palette entry at its position in that
  enumeration, taken before the sort, cycling through the palette; and when no sender
  name is an array index or a member of \<^verbatim>\<open>Object.prototype\<close>, the enumeration is
  the order in which the senders are first seen in the messages sorted by time.
\<close>

theorem senders_order_and_colors:
  assumes "parseChatFile e fname text = Inr r"
  shows "sorted_wrt (\<lambda>a b. ss_count b \<le> ss_count a) (senders r) \<and>
         (\<forall>c. filter (\<lambda>s. ss_count s = c) (senders r) =
              filter (\<lambda>s. ss_count s = c)
                (mapped (senderMapOf e (fst (extractMessages e (parseFromString e text)))))) \<and>
         map color (mapped (senderMapOf e (fst (extractMessages e (parseFromString e text))))) =
           map (\<lambda>i. COLORS ! (i mod length COLORS))
             [0 ..< length (senderMapOf e (fst (extractMessages e (parseFromString e text))))] \<and>
         ((\<forall>m \<in> set (fst (extractMessages e (parseFromString e text))). ordinary (sender m)) \<longrightarrow>
          map ss_name (mapped (senderMapOf e (fst (extractMessages e (parseFromString e text))))) =
            firstSeen (map sender
              (sort_key timestamp (fst (extractMessages e (parseFromString e text))))))"
proof -
  let ?raw = "fst (extractMessages e (parseFromString e text))"
  from assms obtain st where
    loop: "analysisLoop e initial_state (sort_key timestamp ?raw) = Inr st"
    and r: "senders r = sendersOf (senderMap st)"
    by (auto simp: parse_Inr analyse_Inr assemble_def Let_def)
  have sm: "senderMapOf e ?raw = senderMap st"
    by (simp add: senderMapOf_def loop)
  have "map ss_name (mapped (senderMap st)) = firstSeen (map sender (sort_key timestamp ?raw))"
    if "\<forall>m \<in> set ?raw. ordinary (sender m)"
  proof -
    from that have "\<forall>m \<in> set (sort_key timestamp ?raw). ordinary (sender m)" by simp
    from loop_keys [OF loop this] show ?thesis
      by (simp add: names_mapped flip: map_map) (metis (no_types, lifting) map_eq_conv)
  qed
  then show ?thesis
    unfolding sm r
    by (simp add: sorted_sendersOf stable_sendersOf colors_mapped)
qed


section \<open>The examples, evaluated\<close>

lemma valid_names: "isValidSender ''Ann''" "isValidSender ''Ben''" "isValidSender ''constructor''"
  by (simp_all add: validator_defs)

lemma trim_names: "trim ''Ann'' = ''Ann''" "trim ''Ben'' = ''Ben''" "trim ''constructor'' = ''constructor''"
  by (simp_all add: trim_def char_classes)

lemma example_parse:
  "Date_parse (example_env c) ''2024-01-01T09:00Z'' = Some 1704099600000"
  "Date_parse (example_env c) ''2024-01-01T09:05Z'' = Some 1704099900000"
  "Date_parse (example_env c) ''2024-01-01T09:10Z'' = Some 1704100200000"
  "Date_parse (example_env c) ''2024-01-01T09:20Z'' = Some 1704100800000"
  "Date_parse (example_env c) ''2024-01-01T15:40Z'' = Some 1704123600000"
  "Date_parse (example_env c) ''2024-01-02T09:00Z'' = Some 1704186000000"
  by (simp_all add: Date_parse_def iso_date_only_def example_env_def example_dates_def)

lemma telegram_tg:
  "telegram_message (example_env c) (tg ''Ann'' ''2024-01-01T09:00Z'') = Some (plain_msg ''Ann'' 1704099600000)"
  "telegram_message (example_env c) (tg ''Ann'' ''2024-01-01T09:05Z'') = Some (plain_msg ''Ann'' 1704099900000)"
  "telegram_message (example_env c) (tg ''Ann'' ''2024-01-01T09:10Z'') = Some (plain_msg ''Ann'' 1704100200000)"
  "telegram_message (example_env c) (tg ''Ben'' ''2024-01-01T09:20Z'') = Some (plain_msg ''Ben'' 1704100800000)"
  "telegram_message (example_env c) (tg ''Ben'' ''2024-01-01T15:40Z'') = Some (plain_msg ''Ben'' 1704123600000)"
  "telegram_message (example_env c) (tg ''Ben'' ''2024-01-02T09:00Z'') = Some (plain_msg ''Ben'' 1704186000000)"
  "telegram_message (example_env c) (tg ''constructor'' ''2024-01-01T09:00Z'') = Some (plain_msg ''constructor'' 1704099600000)"
  by (simp_all add: telegram_message_def tg_def telegram_dateStr_def extractDate_def example_parse
        trim_names valid_names plain_msg_def)

lemma extract_page:
  "extractMessages e (page ms) =
     (if ms = [] then ([], ''Unknown'') else (List.map_filter (telegram_message e) ms, ''Telegram Export''))"
  by (simp add: extractMessages_def page_def strategy1_def strategy2_def strategy3_def)

lemma extract_examples:
  "extractMessages (example_env c) doc_A =
     ([plain_msg ''Ann'' 1704099600000, plain_msg ''Ann'' 1704099900000, plain_msg ''Ann'' 1704100200000,
       plain_msg ''Ben'' 1704100800000], ''Telegram Export'')"
  "extractMessages (example_env c) doc_B =
     ([plain_msg ''Ann'' 1704099600000, plain_msg ''Ben'' 1704123600000, plain_msg ''Ben'' 1704186000000],
      ''Telegram Export'')"
  "extractMessages (example_env c) doc_C = ([plain_msg ''constructor'' 1704099600000], ''Telegram Export'')"
  by (simp_all add: doc_A_def doc_B_def doc_C_def extract_page telegram_tg)

lemma parse_text:
  "parseFromString (example_env c) text_A = doc_A"
  "parseFromString (example_env c) text_B = doc_B"
  "parseFromString (example_env c) text_C = doc_C"
  "parseFromString (example_env c) text_D = page []"
  by (simp_all add: example_env_def text_A_def text_B_def text_C_def text_D_def para_def)

lemmas civil_defs = civil_from_days_def civil_of_era_def year_of_era_def day_of_year_def civil_of_def
lemmas key_defs = dayKey_def monthKey_def getFullYear_def getMonth_def getDate_def localTime_def
  msPerDay_def String_of_def digits_of.simps digit_char_def padStart2_def

lemma civil_days: "civil_from_days 19723 = (2024, 1, 1)" "civil_from_days 19724 = (2024, 1, 2)"
  by (simp_all add: civil_defs)

lemma example_hours:
  "getHours (example_env c) 1704099600000 = 9" "getHours (example_env c) 1704099900000 = 9"
  "getHours (example_env c) 1704100200000 = 9" "getHours (example_env c) 1704100800000 = 9"
  "getHours (example_env c) 1704123600000 = 15" "getHours (example_env c) 1704186000000 = 9"
  by (simp_all add: getHours_def localTime_def example_env_def)

lemma example_days:
  "dayKey (example_env c) 1704099600000 = day1" "dayKey (example_env c) 1704099900000 = day1"
  "dayKey (example_env c) 1704100200000 = day1" "dayKey (example_env c) 1704100800000 = day1"
  "dayKey (example_env c) 1704123600000 = day1" "dayKey (example_env c) 1704186000000 = day2"
  by (simp_all add: key_defs example_env_def civil_days day1_def day2_def)

lemma example_months:
  "monthKey (example_env c) 1704099600000 = month1" "monthKey (example_env c) 1704099900000 = month1"
  "monthKey (example_env c) 1704100200000 = month1" "monthKey (example_env c) 1704100800000 = month1"
  "monthKey (example_env c) 1704123600000 = month1" "monthKey (example_env c) 1704186000000 = month1"
  by (simp_all add: key_defs example_env_def civil_days month1_def)

lemma hour_strings: "String_of 9 = ''9''" "String_of 15 = ''15''"
  by (simp_all add: String_of_def digits_of.simps digit_char_def)

lemma no_words: "filter countable (words_of []) = []"
  by (simp add: words_of_def toLowerCase_def countable_def)

lemma no_emojis: "emojiMatches (example_env c) s = []"
  by (simp add: example_env_def)

lemmas obj_defs = obj_get_def obj_set_def modify_def is_array_index_def inherited_def
  object_prototype_names_def bump_def str_to_int_def digit_val_def is_digit_def code_unit_def
lemmas step_defs = getSender_def newSender_def basics_def bucket_def reply_def doubleText_def
  timeDiffMinutes_def acc_def state_def plain_msg_def initial_state_def day1_def day2_def month1_def
lemmas step_facts = example_hours example_days example_months hour_strings no_words no_emojis

lemma step_A1:
  "step (example_env c) initial_state (plain_msg ''Ann'' 1704099600000) =
     Inr (state [(''Ann'', acc ''Ann'' 1 [] 0 0 1 1 0)] [(''9'', 1)] [(day1, 1)] [(month1, 1)]
            (plain_msg ''Ann'' 1704099600000))"
  unfolding step_def Let_def plain_msg_def
  by (simp add: step_facts step_defs obj_defs)

lemma step_A2:
  "step (example_env c)
     (state [(''Ann'', acc ''Ann'' 1 [] 0 0 1 1 0)] [(''9'', 1)] [(day1, 1)] [(month1, 1)]
        (plain_msg ''Ann'' 1704099600000))
     (plain_msg ''Ann'' 1704099900000) =
   Inr (state [(''Ann'', acc ''Ann'' 2 [] 1 1 1 2 0)] [(''9'', 2)] [(day1, 2)] [(month1, 2)]
          (plain_msg ''Ann'' 1704099900000))"
  unfolding step_def Let_def plain_msg_def
  by (simp add: step_facts step_defs obj_defs)

lemma step_A3:
  "step (example_env c)
     (state [(''Ann'', acc ''Ann'' 2 [] 1 1 1 2 0)] [(''9'', 2)] [(day1, 2)] [(month1, 2)]
        (plain_msg ''Ann'' 1704099900000))
     (plain_msg ''Ann'' 1704100200000) =
   Inr (state [(''Ann'', acc ''Ann'' 3 [] 2 2 1 3 0)] [(''9'', 3)] [(day1, 3)] [(month1, 3)]
          (plain_msg ''Ann'' 1704100200000))"
  unfolding step_def Let_def plain_msg_def
  by (simp add: step_facts step_defs obj_defs)

lemma step_A4:
  "step (example_env c)
     (state [(''Ann'', acc ''Ann'' 3 [] 2 2 1 3 0)] [(''9'', 3)] [(day1, 3)] [(month1, 3)]
        (plain_msg ''Ann'' 1704100200000))
     (plain_msg ''Ben'' 1704100800000) =
   Inr (state [(''Ann'', acc ''Ann'' 3 [] 0 2 1 3 0), (''Ben'', acc ''Ben'' 1 [10] 0 0 0 1 0)]
          [(''9'', 4)] [(day1, 4)] [(month1, 4)] (plain_msg ''Ben'' 1704100800000))"
  unfolding step_def Let_def plain_msg_def
  by (simp add: step_facts step_defs obj_defs)

lemma step_B2:
  "step (example_env c)
     (state [(''Ann'', acc ''Ann'' 1 [] 0 0 1 1 0)] [(''9'', 1)] [(day1, 1)] [(month1, 1)]
        (plain_msg ''Ann'' 1704099600000))
     (plain_msg ''Ben'' 1704123600000) =
   Inr (state [(''Ann'', acc ''Ann'' 1 [] 0 0 1 1 0), (''Ben'', acc ''Ben'' 1 [400] 0 0 1 0 1)]
          [(''9'', 1), (''15'', 1)] [(day1, 2)] [(month1, 2)] (plain_msg ''Ben'' 1704123600000))"
  unfolding step_def Let_def plain_msg_def
  by (simp add: step_facts step_defs obj_defs)

lemma step_B3:
  "step (example_env c)
     (state [(''Ann'', acc ''Ann'' 1 [] 0 0 1 1 0), (''Ben'', acc ''Ben'' 1 [400] 0 0 1 0 1)]
          [(''9'', 1), (''15'', 1)] [(day1, 2)] [(month1, 2)] (plain_msg ''Ben'' 1704123600000))
     (plain_msg ''Ben'' 1704186000000) =
   Inr (state [(''Ann'', acc ''Ann'' 1 [] 0 0 1 1 0), (''Ben'', acc ''Ben'' 2 [400] 1 1 1 1 1)]
          [(''9'', 2), (''15'', 1)] [(day1, 2), (day2, 1)] [(month1, 3)]
          (plain_msg ''Ben'' 1704186000000))"
  unfolding step_def Let_def plain_msg_def
  by (simp add: step_facts step_defs obj_defs)

lemma step_C1:
  "step (example_env c) initial_state (plain_msg ''constructor'' 1704099600000) =
     Inr (state [] [(''9'', 1)] [(day1, 1)] [(month1, 1)] (plain_msg ''constructor'' 1704099600000))"
  unfolding step_def Let_def plain_msg_def
  by (simp add: step_facts step_defs obj_defs)

lemma loop_A: "analysisLoop (example_env c) initial_state msgs_A = Inr state_A"
  by (simp only: msgs_A_def state_A_def analysisLoop.simps step_A1 step_A2 step_A3 step_A4 sum.case)

lemma loop_B: "analysisLoop (example_env c) initial_state msgs_B = Inr state_B"
  by (simp only: msgs_B_def state_B_def analysisLoop.simps step_A1 step_B2 step_B3 sum.case)

lemma loop_C: "analysisLoop (example_env c) initial_state msgs_C = Inr state_C"
  by (simp only: msgs_C_def state_C_def analysisLoop.simps step_C1 sum.case)

lemma sorted_msgs:
  "sort_key timestamp msgs_A = msgs_A" "sort_key timestamp msgs_B = msgs_B"
  "sort_key timestamp msgs_C = msgs_C"
  by (simp_all add: msgs_A_def msgs_B_def msgs_C_def plain_msg_def)

lemma text_not_empty: "text_A \<noteq> []" "text_B \<noteq> []" "text_C \<noteq> []" "text_D \<noteq> []"
  by (simp_all add: text_A_def text_B_def text_C_def text_D_def para_def)

lemma msgs_not_empty: "msgs_A \<noteq> []" "msgs_B \<noteq> []" "msgs_C \<noteq> []"
  by (simp_all add: msgs_A_def msgs_B_def msgs_C_def)

lemma parse_A: "parseChatFile (example_env c) fname text_A = Inr (result_A c fname)"
  unfolding result_A_def
  by (simp add: parseChatFile_def text_not_empty parse_text extract_examples analyse_def
        msgs_A_def [symmetric] sorted_msgs loop_A msgs_not_empty)

lemma parse_B: "parseChatFile (example_env c) fname text_B = Inr (result_B c fname)"
  unfolding result_B_def
  by (simp add: parseChatFile_def text_not_empty parse_text extract_examples analyse_def
        msgs_B_def [symmetric] sorted_msgs loop_B msgs_not_empty)

lemma parse_C: "parseChatFile (example_env c) fname text_C = Inr (result_C c fname)"
  unfolding result_C_def
  by (simp add: parseChatFile_def text_not_empty parse_text extract_examples analyse_def
        msgs_C_def [symmetric] sorted_msgs loop_C msgs_not_empty)


lemma senders_A:
  "map (\<lambda>s. (ss_name s, ss_count s, longestStreakMessages s, initiatedConversations s,
              avgReplyTimeMinutes s, fastestReplySeconds s, slowestReplyMinutes s))
     (sendersOf (senderMap state_A)) =
   [(''Ann'', 3, 2, 1, 0, 0, 0), (''Ben'', 1, 0, 0, 10, 600, 10)]"
  by (simp add: state_A_def state_def acc_def sendersOf_def mapped_def senderStat_def Let_def
        round_half_up_def)

lemma senders_B:
  "map (\<lambda>s. (ss_name s, ss_count s, color s)) (sendersOf (senderMap state_B)) =
   [(''Ben'', 2, ''#EC4899''), (''Ann'', 1, ''#4F46E5'')]"
  by (simp add: state_B_def state_def acc_def sendersOf_def mapped_def senderStat_def Let_def
        COLORS_def)

lemma mapped_B:
  "map (\<lambda>s. (ss_name s, color s)) (mapped (senderMap state_B)) =
   [(''Ann'', ''#4F46E5''), (''Ben'', ''#EC4899'')]"
  by (simp add: state_B_def state_def acc_def mapped_def senderStat_def Let_def COLORS_def)

lemma days_A: "sortedDaysOf state_A = [day1]"
  by (simp add: sortedDaysOf_def state_A_def state_def)



lemma streak_A: "maxDayStreak e [day1] = 1" "longestGap e [day1] = 0"
  by (simp_all add: maxDayStreak_def longestGap_def)

lemma active_A: "activeDays (Some 1704099600000) (Some 1704100800000) (Suc 0) = 7200"
  by (simp add: activeDays_def Let_def round_half_up_def)

lemma senderMapOf_examples:
  "senderMapOf (example_env c) msgs_A = senderMap state_A"
  "senderMapOf (example_env c) msgs_B = senderMap state_B"
  "senderMapOf (example_env c) msgs_C = senderMap state_C"
  by (simp_all add: senderMapOf_def sorted_msgs loop_A loop_B loop_C)

lemma raw_examples:
  "fst (extractMessages (example_env c) (parseFromString (example_env c) text_A)) = msgs_A"
  "fst (extractMessages (example_env c) (parseFromString (example_env c) text_B)) = msgs_B"
  "fst (extractMessages (example_env c) (parseFromString (example_env c) text_C)) = msgs_C"
  by (simp_all add: parse_text extract_examples msgs_A_def msgs_B_def msgs_C_def)

section \<open>The claims on the examples\<close>

text \<open>
  C2, on the code. The page with three messages of Ann at 09:00, 09:05 and 09:10 and
  one of Ben at 09:20 on 2024-01-01 parses to a result with four messages, all in hour
  9 and on the one day 2024-01-01, a reply-gap list of Ben of 10 minutes, no initiation
  of Ben, a longest day streak of 1 and a longest gap of 0 days, as the claim says; but
  Ann's \<^verbatim>\<open>longestStreakMessages\<close> is 2 and not 3: the counter behind it starts at 0 and
  counts the messages that follow another message of the same sender.
\<close>

theorem scenario_ann_ben:
  "\<exists>r. parseChatFile (example_env c) fname text_A = Inr r \<and>
       totalMessages r = 4 \<and>
       hourlyStats r = [(''9'', 4)] \<and>
       timelineStats r = [(''2024-01-01'', 4)] \<and>
       map (\<lambda>s. (ss_name s, longestStreakMessages s, initiatedConversations s)) (senders r) =
         [(''Ann'', 2, 1), (''Ben'', 0, 0)] \<and>
       map (\<lambda>x. (fst x, replyTimes (snd x)))
         (senderMapOf (example_env c)
            (fst (extractMessages (example_env c) (parseFromString (example_env c) text_A)))) =
         [(''Ann'', []), (''Ben'', [10])] \<and>
       longestDayStreak r = 1 \<and>
       longestGapDays r = 0"
proof -
  have "map (\<lambda>s. (ss_name s, longestStreakMessages s, initiatedConversations s))
          (sendersOf (senderMap state_A)) = [(''Ann'', 2, 1), (''Ben'', 0, 0)]"
    using senders_A [THEN arg_cong, of "map (\<lambda>(n, c, l, i, r). (n, l, i))"]
    by (simp add: case_prod_unfold comp_def)
  moreover have "map (\<lambda>x. (fst x, replyTimes (snd x))) (senderMap state_A) =
         [(''Ann'', []), (''Ben'', [10])]"
    by (simp add: state_A_def state_def acc_def)
  ultimately show ?thesis
    unfolding parse_A raw_examples senderMapOf_examples
    by (simp add: result_A_def assemble_def Let_def days_A streak_A msgs_A_def)
       (simp add: state_A_def state_def day1_def)
qed

text \<open>
  C3, on the code. On the same page, whose four messages lie within twenty minutes of
  one day, \<^verbatim>\<open>activeDaysPct\<close> is 7200: one active day over a span of 1/72 of a day. It
  is neither at most 100 nor 0 for a single active day.
\<close>

theorem active_days_over_100:
  "\<exists>r. parseChatFile (example_env c) fname text_A = Inr r \<and>
       totalDays r = 1 \<and>
       firstMessageDate r = Some 1704099600000 \<and>
       lastMessageDate r = Some 1704100800000 \<and>
       activeDaysPct r = 7200"
  unfolding parse_A
  by (simp add: result_A_def assemble_def Let_def days_A msgs_A_def plain_msg_def active_A)

text \<open>
  C1, on the code. A page with one message of a sender called \<^verbatim>\<open>constructor\<close> parses
  successfully to a result with one message, one entry in the hour histogram and in
  the timeline, and no sender at all: \<^verbatim>\<open>senderMap['constructor']\<close> is the built-in
  \<^verbatim>\<open>Object\<close>, so no accumulator is created and the counts go to the built-in.
\<close>

theorem inherited_sender_not_counted:
  "\<exists>r. parseChatFile (example_env c) fname text_C = Inr r \<and>
       totalMessages r = 1 \<and>
       senders r = [] \<and>
       sum_list (map ss_count (senders r)) = 0 \<and>
       sum_list (map snd (hourlyStats r)) = 1 \<and>
       sum_list (map snd (timelineStats r)) = 1"
  unfolding parse_C
  by (simp add: result_C_def assemble_def Let_def msgs_C_def state_C_def state_def
        sendersOf_def mapped_def)

text \<open>
  C8 as stated fails on the colours: with Ann seen first (one message) and Ben second
  (two messages), Ben is first in the result and carries the second palette entry, Ann
  is second and carries the first.
\<close>

theorem senders_colors_counterexample:
  "\<exists>r. parseChatFile (example_env 0) ''chat.html'' text_B = Inr r \<and>
       map (\<lambda>s. (ss_name s, ss_count s, color s)) (senders r) =
         [(''Ben'', 2, ''#EC4899''), (''Ann'', 1, ''#4F46E5'')] \<and>
       COLORS ! 0 = ''#4F46E5'' \<and> COLORS ! 1 = ''#EC4899''"
  unfolding parse_B
  by (simp add: result_B_def assemble_def Let_def senders_B COLORS_def)

text \<open>
  C9 as stated fails: the same file parsed at two readings of the clock gives two
  different results.
\<close>

theorem parse_clock_counterexample:
  "parseChatFile (example_env 0) ''chat.html'' text_B \<noteq>
   parseChatFile ((example_env 0)\<lparr>clock := 1\<rparr>) ''chat.html'' text_B"
proof
  assume eq: "parseChatFile (example_env 0) ''chat.html'' text_B =
              parseChatFile ((example_env 0)\<lparr>clock := 1\<rparr>) ''chat.html'' text_B"
  have "(example_env 0)\<lparr>clock := 1\<rparr> = example_env 1"
    by (simp add: example_env_def)
  with eq have "result_B 0 ''chat.html'' = result_B 1 ''chat.html''"
    by (simp add: parse_B)
  then have "parsedAt (metadata (result_B 0 ''chat.html'')) = parsedAt (metadata (result_B 1 ''chat.html''))"
    by simp
  then show False
    by (simp add: result_B_def assemble_def Let_def example_env_def)
qed

text \<open>C10 at the page of Ann and Ben: both senders of the result are partitioned.\<close>

theorem buckets_partition_count_witness:
  "senders (result_B 0 ''chat.html'') \<noteq> [] \<and>
   list_all (\<lambda>s. lateNightMessages s + morningMessages s + afternoonMessages s + eveningMessages s =
                 ss_count s) (senders (result_B 0 ''chat.html''))"
proof -
  have "map ss_name (senders (result_B 0 ''chat.html'')) = [''Ben'', ''Ann'']"
    using senders_B [THEN arg_cong, of "map fst"]
    by (simp add: result_B_def assemble_def Let_def comp_def)
  then have "senders (result_B 0 ''chat.html'') \<noteq> []" by auto
  then show ?thesis
    using buckets_partition_count [OF parse_B [of 0 "''chat.html''"]]
    by (simp add: list_all_iff)
qed

text \<open>
  C5 at the empty text, at a page without messages and at the page of Ann and Ben.
\<close>

theorem parse_fails_or_has_messages_witness:
  "parseChatFile (example_env 0) ''chat.html'' [] = Inl (Error ''Empty file content'') \<and>
   parseChatFile (example_env 0) ''chat.html'' text_D =
     Inl (Error ''No messages found or format unrecognized.'') \<and>
   (\<exists>r. parseChatFile (example_env 0) ''chat.html'' text_B = Inr r \<and> totalMessages r = 3)"
proof -
  have none: "strategy1 (example_env 0) (page []) = []" "strategy2 (example_env 0) (page []) = []"
    "strategy3 (example_env 0) (page []) = []"
    by (simp_all add: strategy1_def strategy2_def strategy3_def page_def)
  have "length msgs_B = 3" by (simp add: msgs_B_def)
  then show ?thesis
    using parse_fails_or_has_messages [of "example_env 0" "''chat.html''" text_D]
      parse_fails_or_has_messages [of "example_env 0" "''chat.html''" text_B]
    by (simp add: parse_text none text_not_empty parse_B extract_examples)
qed



text \<open>
  C8, as the code has it, at the page of Ann and Ben: Ben before Ann in the result,
  Ann before Ben in the enumeration, which is the order of first appearance, and the
  colours follow the enumeration.
\<close>

theorem senders_order_and_colors_witness:
  "sorted_wrt (\<lambda>a b. ss_count b \<le> ss_count a) (senders (result_B 0 ''chat.html'')) \<and>
   map ss_name (senders (result_B 0 ''chat.html'')) = [''Ben'', ''Ann''] \<and>
   map ss_name (mapped (senderMapOf (example_env 0) msgs_B)) = [''Ann'', ''Ben''] \<and>
   map color (mapped (senderMapOf (example_env 0) msgs_B)) = [COLORS ! 0, COLORS ! 1] \<and>
   firstSeen (map sender msgs_B) = [''Ann'', ''Ben'']"
proof -
  have o: "\<forall>m \<in> set msgs_B. ordinary (sender m)"
    by (simp add: msgs_B_def plain_msg_def ordinary_def is_array_index_def char_classes
          object_prototype_names_def)
  have n: "map ss_name (senders (result_B 0 ''chat.html'')) = [''Ben'', ''Ann'']"
    using senders_B [THEN arg_cong, of "map fst"]
    by (simp add: result_B_def assemble_def Let_def comp_def)
  have f: "firstSeen (map sender msgs_B) = [''Ann'', ''Ben'']"
    by (simp add: msgs_B_def plain_msg_def)
  have l: "[0 ..< length (senderMap state_B)] = [0, 1]"
    by (simp add: state_B_def state_def upt_rec)
  have c: "length COLORS = 8"
    by (simp add: COLORS_def)
  from senders_order_and_colors [OF parse_B [of 0 "''chat.html''"]] o n f l
  show ?thesis
    by (simp add: raw_examples senderMapOf_examples sorted_msgs c)
qed


end
